theory Spec2Isabelle
  imports Complex_Main
begin

section \<open>Action state manager (actionStateManager.ts)\<close>

text \<open>
  The manager is a singleton object with three private fields: the map of action states,
  the map of completion callbacks, and the single slot \<open>activeAction\<close>.  Every method
  mutates the object; the embedding passes the object explicitly and returns the new one.
  \<open>Date.now()\<close> is an argument of the methods that read the clock (an integer number of
  milliseconds).  A callback is represented by a number; firing it is recorded in the
  field \<open>notified\<close>.  The method \<open>cleanup\<close>, which drops old completed and failed
  entries and never touches the active slot, is not part of the embedding.
\<close>

datatype ActionStatus = Pending | InProgress | Completed | Failed

record ActionState =
  action_id :: string
  action_type :: string
  status :: ActionStatus
  startTime :: int
  endTime :: "int option"
  action_error :: "string option"

record ActionStateManager =
  actionStates :: "string \<rightharpoonup> ActionState"
  completionCallbacks :: "string \<rightharpoonup> nat list"
  activeAction :: "string option"
  notified :: "(nat \<times> bool \<times> string option) list"

definition newManager :: ActionStateManager where
  "newManager = \<lparr> actionStates = Map.empty, completionCallbacks = Map.empty,
                  activeAction = None, notified = [] \<rparr>"

definition startAction :: "string \<Rightarrow> string \<Rightarrow> int \<Rightarrow> ActionStateManager \<Rightarrow> ActionStateManager" where
  "startAction actionId ty now m =
     m \<lparr> actionStates := (actionStates m)(actionId \<mapsto>
            \<lparr> action_id = actionId, action_type = ty, status = Pending,
              startTime = now, endTime = None, action_error = None \<rparr>),
         activeAction := Some actionId \<rparr>"

definition setActionInProgress :: "string \<Rightarrow> ActionStateManager \<Rightarrow> ActionStateManager" where
  "setActionInProgress actionId m =
     (case actionStates m actionId of
        None \<Rightarrow> m
      | Some st \<Rightarrow> m \<lparr> actionStates := (actionStates m)(actionId \<mapsto> st \<lparr> status := InProgress \<rparr>) \<rparr>)"

definition notifyCallbacks ::
  "string \<Rightarrow> bool \<Rightarrow> string option \<Rightarrow> ActionStateManager \<Rightarrow> ActionStateManager" where
  "notifyCallbacks actionId success err m =
     (case completionCallbacks m actionId of
        None \<Rightarrow> m
      | Some callbacks \<Rightarrow>
          m \<lparr> notified := notified m @ map (\<lambda>cb. (cb, success, err)) callbacks,
              completionCallbacks := (completionCallbacks m)(actionId := None) \<rparr>)"

definition completeAction :: "string \<Rightarrow> int \<Rightarrow> ActionStateManager \<Rightarrow> ActionStateManager" where
  "completeAction actionId now m =
     (case actionStates m actionId of
        None \<Rightarrow> m
      | Some st \<Rightarrow>
          let m1 = m \<lparr> actionStates := (actionStates m)(actionId \<mapsto>
                          st \<lparr> status := Completed, endTime := Some now \<rparr>) \<rparr>;
              m2 = (if activeAction m1 = Some actionId then m1 \<lparr> activeAction := None \<rparr> else m1)
          in notifyCallbacks actionId True None m2)"

definition failAction :: "string \<Rightarrow> string \<Rightarrow> int \<Rightarrow> ActionStateManager \<Rightarrow> ActionStateManager" where
  "failAction actionId err now m =
     (case actionStates m actionId of
        None \<Rightarrow> m
      | Some st \<Rightarrow>
          let m1 = m \<lparr> actionStates := (actionStates m)(actionId \<mapsto>
                          st \<lparr> status := Failed, endTime := Some now, action_error := Some err \<rparr>) \<rparr>;
              m2 = (if activeAction m1 = Some actionId then m1 \<lparr> activeAction := None \<rparr> else m1)
          in notifyCallbacks actionId False (Some err) m2)"

definition onActionComplete :: "string \<Rightarrow> nat \<Rightarrow> ActionStateManager \<Rightarrow> ActionStateManager" where
  "onActionComplete actionId cb m =
     (let cbs = (case completionCallbacks m actionId of None \<Rightarrow> [] | Some l \<Rightarrow> l)
      in m \<lparr> completionCallbacks := (completionCallbacks m)(actionId \<mapsto> cbs @ [cb]) \<rparr>)"

definition hasActiveAction :: "ActionStateManager \<Rightarrow> bool" where
  "hasActiveAction m = (activeAction m \<noteq> None)"

definition getActiveActionId :: "ActionStateManager \<Rightarrow> string option" where
  "getActiveActionId m = activeAction m"

text \<open>
  \<open>waitForAllActions\<close> polls: \<open>checkComplete\<close> resolves when no action is active and
  otherwise re-arms a 50 ms timer.  The argument is the list of manager states that the
  successive polls observe (the state at the call first); the result is the number of
  milliseconds of timers armed before resolving, or \<open>None\<close> when every observed state
  still had an active action.
\<close>

fun waitForAllActions :: "ActionStateManager list \<Rightarrow> nat option" where
  "waitForAllActions [] = None"
| "waitForAllActions (m # ms) =
     (if \<not> hasActiveAction m then Some 0
      else map_option (\<lambda>t. t + 50) (waitForAllActions ms))"

text \<open>Calls on the manager, and the manager after a sequence of calls.\<close>

datatype manager_call =
    StartAction string string int
  | SetActionInProgress string
  | CompleteAction string int
  | FailAction string string int

fun perform_call :: "manager_call \<Rightarrow> ActionStateManager \<Rightarrow> ActionStateManager" where
  "perform_call (StartAction a ty now) m = startAction a ty now m"
| "perform_call (SetActionInProgress a) m = setActionInProgress a m"
| "perform_call (CompleteAction a now) m = completeAction a now m"
| "perform_call (FailAction a err now) m = failAction a err now m"

definition run_calls :: "manager_call list \<Rightarrow> ActionStateManager \<Rightarrow> ActionStateManager" where
  "run_calls cs m = foldl (\<lambda>s c. perform_call c s) m cs"

text \<open>
  The window of an action id, read off the call sequence alone: the id is inside its
  window when its latest \<open>startAction\<close> is not followed by a \<open>completeAction\<close> or
  \<open>failAction\<close> for the same id.
\<close>

fun window_step :: "string \<Rightarrow> bool \<Rightarrow> manager_call \<Rightarrow> bool" where
  "window_step a w (StartAction b ty now) = (if b = a then True else w)"
| "window_step a w (SetActionInProgress b) = w"
| "window_step a w (CompleteAction b now) = (if b = a then False else w)"
| "window_step a w (FailAction b err now) = (if b = a then False else w)"

definition in_window :: "string \<Rightarrow> manager_call list \<Rightarrow> bool" where
  "in_window a cs = foldl (window_step a) False cs"

fun started_ids :: "manager_call list \<Rightarrow> string list" where
  "started_ids [] = []"
| "started_ids (StartAction a ty now # cs) = a # started_ids cs"
| "started_ids (c # cs) = started_ids cs"

definition some_window_open :: "manager_call list \<Rightarrow> bool" where
  "some_window_open cs = list_ex (\<lambda>a. in_window a cs) (started_ids cs)"

definition last_started :: "manager_call list \<Rightarrow> string option" where
  "last_started cs = (if started_ids cs = [] then None else Some (last (started_ids cs)))"

text \<open>
  Single-flight use: no \<open>startAction\<close> is issued while the window of an earlier
  action is still open.
\<close>

fun single_flight_from :: "manager_call list \<Rightarrow> manager_call list \<Rightarrow> bool" where
  "single_flight_from pre [] = True"
| "single_flight_from pre (StartAction a ty now # cs) =
     (\<not> some_window_open pre \<and> single_flight_from (pre @ [StartAction a ty now]) cs)"
| "single_flight_from pre (c # cs) = single_flight_from (pre @ [c]) cs"

definition single_flight :: "manager_call list \<Rightarrow> bool" where
  "single_flight cs = single_flight_from [] cs"


subsection \<open>Properties of the manager\<close>

lemma run_calls_snoc: "run_calls (cs @ [c]) m = perform_call c (run_calls cs m)"
  by (simp add: run_calls_def)

lemma run_calls_Nil: "run_calls [] m = m"
  by (simp add: run_calls_def)

lemma started_ids_snoc:
  "started_ids (cs @ [c]) = started_ids cs @ (case c of StartAction a ty now \<Rightarrow> [a] | _ \<Rightarrow> [])"
  by (induction cs rule: started_ids.induct) (auto split: manager_call.splits)

lemma in_window_snoc: "in_window a (cs @ [c]) = window_step a (in_window a cs) c"
  by (simp add: in_window_def)

lemma notifyCallbacks_fields:
  "activeAction (notifyCallbacks a s e m) = activeAction m"
  "actionStates (notifyCallbacks a s e m) = actionStates m"
  by (simp_all add: notifyCallbacks_def split: option.splits)

text \<open>The active slot always names an action that is in the state map.\<close>

lemma active_is_tracked:
  "activeAction (run_calls cs newManager) = Some a \<Longrightarrow>
   actionStates (run_calls cs newManager) a \<noteq> None"
proof (induction cs arbitrary: a rule: rev_induct)
  case Nil
  then show ?case by (simp add: run_calls_Nil newManager_def)
next
  case (snoc c cs)
  then show ?case
    by (cases c)
       (auto simp: run_calls_snoc startAction_def setActionInProgress_def completeAction_def
          failAction_def notifyCallbacks_fields Let_def split: option.splits if_splits)
qed

text \<open>
  The slot holds the most recently started id for as long as that id is inside its
  window, and is empty otherwise.
\<close>

lemma activeAction_run:
  "activeAction (run_calls cs newManager) =
     (case last_started cs of None \<Rightarrow> None
      | Some a \<Rightarrow> if in_window a cs then Some a else None)"
proof (induction cs rule: rev_induct)
  case Nil
  then show ?case by (simp add: run_calls_Nil newManager_def last_started_def)
next
  case (snoc c cs)
  let ?m = "run_calls cs newManager"
  show ?case
  proof (cases c)
    case (StartAction b ty now)
    then show ?thesis
      by (simp add: run_calls_snoc startAction_def last_started_def started_ids_snoc in_window_snoc)
  next
    case (SetActionInProgress b)
    then show ?thesis using snoc
      by (simp add: run_calls_snoc setActionInProgress_def last_started_def started_ids_snoc
          in_window_snoc split: option.splits)
  next
    case (CompleteAction b now)
    show ?thesis
    proof (cases "actionStates ?m b")
      case None
      then have "activeAction ?m \<noteq> Some b" using active_is_tracked by blast
      then show ?thesis using snoc None CompleteAction
        by (auto simp add: run_calls_snoc completeAction_def last_started_def started_ids_snoc
            in_window_snoc split: option.splits if_splits)
    next
      case (Some st)
      then show ?thesis using snoc CompleteAction
        by (auto simp add: run_calls_snoc completeAction_def last_started_def started_ids_snoc
            in_window_snoc notifyCallbacks_fields Let_def split: option.splits if_splits)
    qed
  next
    case (FailAction b err now)
    show ?thesis
    proof (cases "actionStates ?m b")
      case None
      then have "activeAction ?m \<noteq> Some b" using active_is_tracked by blast
      then show ?thesis using snoc None FailAction
        by (auto simp add: run_calls_snoc failAction_def last_started_def started_ids_snoc
            in_window_snoc split: option.splits if_splits)
    next
      case (Some st)
      then show ?thesis using snoc FailAction
        by (auto simp add: run_calls_snoc failAction_def last_started_def started_ids_snoc
            in_window_snoc notifyCallbacks_fields Let_def split: option.splits if_splits)
    qed
  qed
qed

lemma single_flight_from_snoc:
  "single_flight_from pre (xs @ [c]) =
     (single_flight_from pre xs \<and>
      (case c of StartAction a ty now \<Rightarrow> \<not> some_window_open (pre @ xs) | _ \<Rightarrow> True))"
  by (induction pre xs rule: single_flight_from.induct) (auto split: manager_call.splits)

lemma single_flight_only_last:
  "single_flight cs \<Longrightarrow> a \<in> set (started_ids cs) \<Longrightarrow> in_window a cs \<Longrightarrow> last_started cs = Some a"
proof (induction cs rule: rev_induct)
  case Nil
  then show ?case by simp
next
  case (snoc c cs)
  then show ?case
    by (cases c)
       (auto simp: single_flight_def single_flight_from_snoc started_ids_snoc in_window_snoc
          last_started_def some_window_open_def list_ex_iff split: if_splits)
qed

lemma last_started_mem: "last_started cs = Some a \<Longrightarrow> a \<in> set (started_ids cs)"
  by (auto simp: last_started_def split: if_splits)

text \<open>
  Claim C3, as stated: after every sequence of calls, overlapping ones included,
  \<open>hasActiveAction()\<close> is true exactly when some started action has not yet been
  completed or failed.  This fails on the code: the manager has one slot, so completing
  the action started last empties the slot although an action started earlier is still
  open.  With A started, then B started, then B completed, action A is inside its window
  and \<open>hasActiveAction()\<close> is false.
\<close>

theorem C3_overlap_counterexample:
  "in_window ''A''
     [StartAction ''A'' ''click'' 0, StartAction ''B'' ''click'' 1, CompleteAction ''B'' 2]
   \<and> some_window_open
     [StartAction ''A'' ''click'' 0, StartAction ''B'' ''click'' 1, CompleteAction ''B'' 2]
   \<and> \<not> hasActiveAction (run_calls
     [StartAction ''A'' ''click'' 0, StartAction ''B'' ''click'' 1, CompleteAction ''B'' 2]
     newManager)"
  by (simp add: hasActiveAction_def run_calls_def startAction_def completeAction_def
      notifyCallbacks_def newManager_def in_window_def some_window_open_def)

text \<open>
  Claim C3, amended: after every sequence of \<open>startAction\<close>, \<open>setActionInProgress\<close>,
  \<open>completeAction\<close> and \<open>failAction\<close> calls on a fresh manager, \<open>hasActiveAction()\<close>
  is true exactly when the most recently started action is between its \<open>startAction\<close> and
  its matching \<open>completeAction\<close>/\<open>failAction\<close>; whenever it is true some action is inside
  its window; for single-flight sequences (no action started while another is open) it is
  true exactly inside the window of an action; and \<open>waitForAllActions()\<close> resolves at once,
  with no timer armed, when no action is active.
\<close>

theorem C3_hasActiveAction_window:
  "hasActiveAction (run_calls cs newManager) = (\<exists>a. last_started cs = Some a \<and> in_window a cs)
   \<and> (hasActiveAction (run_calls cs newManager) \<longrightarrow> some_window_open cs)
   \<and> (single_flight cs \<longrightarrow> hasActiveAction (run_calls cs newManager) = some_window_open cs)
   \<and> (\<not> hasActiveAction m \<longrightarrow> waitForAllActions (m # ms) = Some 0)"
proof -
  have a: "hasActiveAction (run_calls cs newManager) = (\<exists>a. last_started cs = Some a \<and> in_window a cs)"
    by (auto simp: hasActiveAction_def activeAction_run split: option.splits)
  have b: "some_window_open cs" if "hasActiveAction (run_calls cs newManager)"
    using that a last_started_mem by (auto simp: some_window_open_def list_ex_iff)
  have c: "hasActiveAction (run_calls cs newManager) = some_window_open cs" if "single_flight cs"
    using that a b single_flight_only_last by (auto simp: some_window_open_def list_ex_iff)
  have d: "waitForAllActions (m # ms) = Some 0" if "\<not> hasActiveAction m"
    using that by simp
  from a b c d show ?thesis by blast
qed

text \<open>
  Witness for C3: one action run to completion and a second one started.  The sequence is
  single-flight, the second action is open, and a wait on the fresh manager resolves at once.
\<close>

theorem C3_hasActiveAction_window_witness:
  "single_flight [StartAction ''A'' ''click'' 0, SetActionInProgress ''A'',
                  CompleteAction ''A'' 5, StartAction ''B'' ''waiting'' 6]
   \<and> some_window_open [StartAction ''A'' ''click'' 0, SetActionInProgress ''A'',
                  CompleteAction ''A'' 5, StartAction ''B'' ''waiting'' 6]
   \<and> hasActiveAction (run_calls [StartAction ''A'' ''click'' 0, SetActionInProgress ''A'',
                  CompleteAction ''A'' 5, StartAction ''B'' ''waiting'' 6] newManager)
   \<and> \<not> hasActiveAction newManager
   \<and> waitForAllActions [newManager] = Some 0"
proof -
  let ?cs = "[StartAction ''A'' ''click'' 0, SetActionInProgress ''A'',
              CompleteAction ''A'' 5, StartAction ''B'' ''waiting'' 6]"
  have sf: "single_flight ?cs"
    by (simp add: single_flight_def some_window_open_def in_window_def)
  have op: "some_window_open ?cs"
    by (simp add: some_window_open_def in_window_def)
  have idle: "\<not> hasActiveAction newManager"
    by (simp add: hasActiveAction_def newManager_def)
  from C3_hasActiveAction_window [of ?cs newManager "[]"] sf op idle
  show ?thesis by blast
qed

section \<open>JavaScript values shared by the executors\<close>

text \<open>
  A thrown value is represented by the message the callers read from it
  (\<open>error instanceof Error ? error.message : String(error)\<close>); \<open>TypeError\<close> marks the
  errors raised by the language itself (a property read on \<open>undefined\<close>).
\<close>

datatype js_error = Error string | TypeError string

text \<open>
  Truthiness of an attribute value or optional string: \<open>null\<close>/\<open>undefined\<close> and the
  empty string are falsy.
\<close>

fun truthy :: "string option \<Rightarrow> bool" where
  "truthy None = False"
| "truthy (Some s) = (s \<noteq> [])"

text \<open>\<open>s.substring(a, b)\<close> for \<open>a \<le> b\<close>, and \<open>s.substr(a, n)\<close>.\<close>

definition substring :: "string \<Rightarrow> nat \<Rightarrow> nat \<Rightarrow> string" where
  "substring s a b = take (b - a) (drop a s)"

definition substr :: "string \<Rightarrow> nat \<Rightarrow> nat \<Rightarrow> string" where
  "substr s a n = take n (drop a s)"

section \<open>Element identity (pages/Content/getAnnotatedDOM.ts)\<close>

text \<open>
  \<open>currentElements\<close> is the table filled by the last \<open>getAnnotatedDOM\<close> pass; the
  traversal pushes every element once, so two indices never name the same element and
  the page is represented by the list, indexed like \<open>currentElements\<close>, of the value of
  each element's identity attribute (\<open>None\<close> when the attribute is absent).

  \<open>getUniqueElementSelectorId\<close> takes the element index, the string
  \<open>Math.random().toString(36)\<close> that the call would draw, and the page; it returns the
  identifier and the page after the call.  Reading \<open>currentElements[id]\<close> out of range
  gives \<open>undefined\<close>, and the attribute read on it raises a \<open>TypeError\<close>.
\<close>

type_synonym page_elements = "string option list"

definition getUniqueElementSelectorId ::
  "nat \<Rightarrow> string \<Rightarrow> page_elements \<Rightarrow> js_error + (string \<times> page_elements)" where
  "getUniqueElementSelectorId i random36 currentElements =
     (if i < length currentElements then
        (let uniqueId = currentElements ! i in
         if truthy uniqueId then Inr (the uniqueId, currentElements)
         else (let fresh = substring random36 2 10
               in Inr (fresh, currentElements[i := Some fresh])))
      else Inl (TypeError ''Cannot read properties of undefined (reading getAttribute)''))"

subsection \<open>Properties of the identity assignment\<close>

text \<open>
  When the first call returns a non-empty identifier, a second call on the resulting page
  returns the same identifier and leaves the page unchanged, whatever random string it
  would have drawn.
\<close>

lemma getUniqueElementSelectorId_read_back:
  assumes "getUniqueElementSelectorId i r1 els = Inr (u1, els1)" and "u1 \<noteq> []"
  shows "getUniqueElementSelectorId i r2 els1 = Inr (u1, els1)"
  using assms
  by (auto simp: getUniqueElementSelectorId_def Let_def split: if_splits option.splits)

text \<open>
  The identifier drawn is empty exactly when the random string has at most two
  characters, which is the case of \<open>Math.random()\<close> returning \<open>0\<close> (printed \<open>0\<close> in base 36;
  every other value prints as \<open>0.\<close> followed by digits).
\<close>

lemma fresh_identifier_empty: "substring r 2 10 = [] \<longleftrightarrow> length r \<le> 2"
  by (auto simp: substring_def)

text \<open>
  Claim C9 at the input where the code departs from it: element 0 carries no identity
  attribute and \<open>Math.random()\<close> returns 0 on the first call, so the random string is
  \<open>0\<close> and the identifier written and returned is the empty string.  The second call
  reads the empty attribute as falsy, draws again (the string \<open>0.i\<close> of 0.5 here) and
  returns a different identifier.
\<close>

theorem C9_empty_identifier_redrawn:
  "getUniqueElementSelectorId 0 ''0'' [None] = Inr ('''', [Some ''''])
   \<and> getUniqueElementSelectorId 0 ''0.i'' [Some ''''] = Inr (''i'', [Some ''i''])"
  by (simp add: getUniqueElementSelectorId_def substring_def Let_def)

section \<open>JavaScript numbers\<close>

text \<open>
  A JavaScript number is \<open>NaN\<close>, an infinity or a finite value.  Finite values are taken
  as rationals and the arithmetic on them is exact: the rounding of doubles is not
  represented.  The properties below compare numbers and clamp them; they do not depend
  on the last bit of a product or a quotient.  Comparisons with \<open>NaN\<close> are false, and
  \<open>Math.min\<close>/\<open>Math.max\<close> return \<open>NaN\<close> when an argument is \<open>NaN\<close>.
\<close>

datatype jsnum = NaN | NegInf | Fin rat | PosInf

fun js_lt :: "jsnum \<Rightarrow> jsnum \<Rightarrow> bool" where
  "js_lt NaN b = False"
| "js_lt a NaN = False"
| "js_lt PosInf b = False"
| "js_lt a NegInf = False"
| "js_lt NegInf b = True"
| "js_lt a PosInf = True"
| "js_lt (Fin x) (Fin y) = (x < y)"

fun js_le :: "jsnum \<Rightarrow> jsnum \<Rightarrow> bool" where
  "js_le NaN b = False"
| "js_le a NaN = False"
| "js_le NegInf b = True"
| "js_le a PosInf = True"
| "js_le PosInf b = False"
| "js_le a NegInf = False"
| "js_le (Fin x) (Fin y) = (x \<le> y)"

definition js_gt :: "jsnum \<Rightarrow> jsnum \<Rightarrow> bool" where
  "js_gt a b = js_lt b a"

definition js_ge :: "jsnum \<Rightarrow> jsnum \<Rightarrow> bool" where
  "js_ge a b = js_le b a"

definition isNaN :: "jsnum \<Rightarrow> bool" where
  "isNaN a = (a = NaN)"

definition js_min :: "jsnum \<Rightarrow> jsnum \<Rightarrow> jsnum" where
  "js_min a b = (if isNaN a \<or> isNaN b then NaN else if js_lt b a then b else a)"

definition js_max :: "jsnum \<Rightarrow> jsnum \<Rightarrow> jsnum" where
  "js_max a b = (if isNaN a \<or> isNaN b then NaN else if js_lt a b then b else a)"

fun js_neg :: "jsnum \<Rightarrow> jsnum" where
  "js_neg NaN = NaN"
| "js_neg NegInf = PosInf"
| "js_neg PosInf = NegInf"
| "js_neg (Fin x) = Fin (- x)"

fun js_plus :: "jsnum \<Rightarrow> jsnum \<Rightarrow> jsnum" where
  "js_plus NaN b = NaN"
| "js_plus a NaN = NaN"
| "js_plus (Fin x) (Fin y) = Fin (x + y)"
| "js_plus PosInf NegInf = NaN"
| "js_plus NegInf PosInf = NaN"
| "js_plus PosInf b = PosInf"
| "js_plus NegInf b = NegInf"
| "js_plus a PosInf = PosInf"
| "js_plus a NegInf = NegInf"

definition js_minus :: "jsnum \<Rightarrow> jsnum \<Rightarrow> jsnum" where
  "js_minus a b = js_plus a (js_neg b)"

fun js_sign :: "jsnum \<Rightarrow> int" where
  "js_sign NaN = 0"
| "js_sign NegInf = - 1"
| "js_sign PosInf = 1"
| "js_sign (Fin x) = (if x < 0 then - 1 else if x = 0 then 0 else 1)"

fun js_times :: "jsnum \<Rightarrow> jsnum \<Rightarrow> jsnum" where
  "js_times NaN b = NaN"
| "js_times a NaN = NaN"
| "js_times (Fin x) (Fin y) = Fin (x * y)"
| "js_times a b =
     (let s = js_sign a * js_sign b
      in if s = 0 then NaN else if 0 < s then PosInf else NegInf)"

text \<open>Division; a zero divisor is taken as \<open>+0\<close>.\<close>

fun js_div :: "jsnum \<Rightarrow> jsnum \<Rightarrow> jsnum" where
  "js_div NaN b = NaN"
| "js_div a NaN = NaN"
| "js_div (Fin x) (Fin y) =
     (if y = 0 then (if x = 0 then NaN else if 0 < x then PosInf else NegInf)
      else Fin (x / y))"
| "js_div (Fin x) b = Fin 0"
| "js_div a (Fin y) =
     (if js_sign a * (if y < 0 then - 1 else 1) > 0 then PosInf else NegInf)"
| "js_div a b = NaN"

fun js_abs :: "jsnum \<Rightarrow> jsnum" where
  "js_abs NaN = NaN"
| "js_abs NegInf = PosInf"
| "js_abs PosInf = PosInf"
| "js_abs (Fin x) = Fin \<bar>x\<bar>"

section \<open>Waiting executor (Operation/actions/waiting.ts)\<close>

text \<open>
  \<open>waiting\<close> validates its argument, caps it at 300 seconds, logs a warning when it
  capped, and arms one timer of \<open>waitMs\<close> milliseconds whose firing resolves the promise.
  The payload field is typed \<open>number\<close>, so the \<open>typeof\<close> test never fires on a
  \<open>jsnum\<close>.  The rejection \<open>InvalidWaitDuration s\<close> stands for the thrown
  \<open>Error("Invalid wait duration: s. Must be a non-negative number.")\<close>.
\<close>

datatype waiting_error = InvalidWaitDuration jsnum

record WaitingRun =
  actualWaitSeconds :: jsnum
  waitMs :: jsnum
  capWarning :: bool

definition maxWaitSeconds :: jsnum where
  "maxWaitSeconds = Fin 300"

definition waiting :: "jsnum \<Rightarrow> waiting_error + WaitingRun" where
  "waiting seconds =
     (if js_lt seconds (Fin 0) then Inl (InvalidWaitDuration seconds)
      else
        (let actual = js_min seconds maxWaitSeconds
         in Inr \<lparr> actualWaitSeconds = actual,
                   waitMs = js_times actual (Fin 1000),
                   capWarning = js_gt seconds maxWaitSeconds \<rparr>))"

subsection \<open>Properties of the waiting executor\<close>

lemma js_ge_zero_cases:
  "js_ge s (Fin 0) \<longleftrightarrow> s = PosInf \<or> (\<exists>x. s = Fin x \<and> 0 \<le> x)"
  by (cases s) (auto simp: js_ge_def)

text \<open>
  Claim C7, as stated, covers every numeric input.  A negative input is not clamped to 0:
  the validation at the head of \<open>waiting\<close> rejects it, and no timer is armed.
\<close>

theorem C7_negative_rejected_counterexample:
  "waiting (Fin (- 5)) = Inl (InvalidWaitDuration (Fin (- 5)))"
  by (simp add: waiting_def)

text \<open>
  Claim C7, amended: for every input that is at least 0 (so not \<open>NaN\<close>), \<open>waiting\<close> arms
  a timer for \<open>min(seconds, 300)\<close> seconds, a duration inside \<open>[0, 300]\<close>, expressed in
  milliseconds, and logs the capping warning exactly when the input exceeds 300; a
  negative input is rejected with the invalid-duration error; with \<open>seconds = 1000\<close> the
  timer is armed for 300000 ms.
\<close>

theorem C7_waiting_clamps:
  "(js_ge seconds (Fin 0) \<longrightarrow>
      (\<exists>run. waiting seconds = Inr run
         \<and> actualWaitSeconds run = js_min seconds (Fin 300)
         \<and> js_ge (actualWaitSeconds run) (Fin 0)
         \<and> js_le (actualWaitSeconds run) (Fin 300)
         \<and> waitMs run = js_times (actualWaitSeconds run) (Fin 1000)
         \<and> capWarning run = js_gt seconds (Fin 300)))
   \<and> (js_lt seconds (Fin 0) \<longrightarrow> waiting seconds = Inl (InvalidWaitDuration seconds))
   \<and> waiting (Fin 1000) =
       Inr \<lparr> actualWaitSeconds = Fin 300, waitMs = Fin 300000, capWarning = True \<rparr>"
proof -
  have pos: "\<exists>run. waiting seconds = Inr run
         \<and> actualWaitSeconds run = js_min seconds (Fin 300)
         \<and> js_ge (actualWaitSeconds run) (Fin 0)
         \<and> js_le (actualWaitSeconds run) (Fin 300)
         \<and> waitMs run = js_times (actualWaitSeconds run) (Fin 1000)
         \<and> capWarning run = js_gt seconds (Fin 300)" if "js_ge seconds (Fin 0)"
  proof -
    from that consider "seconds = PosInf" | x where "seconds = Fin x" "0 \<le> x"
      by (auto simp: js_ge_zero_cases)
    then show ?thesis
    proof cases
      case 1
      then show ?thesis
        by (simp add: waiting_def maxWaitSeconds_def js_min_def isNaN_def js_ge_def js_gt_def)
    next
      case 2
      then show ?thesis
        by (simp add: waiting_def maxWaitSeconds_def js_min_def isNaN_def js_ge_def js_gt_def)
    qed
  qed
  have neg: "waiting seconds = Inl (InvalidWaitDuration seconds)" if "js_lt seconds (Fin 0)"
    using that by (simp add: waiting_def)
  have cap: "waiting (Fin 1000) =
       Inr \<lparr> actualWaitSeconds = Fin 300, waitMs = Fin 300000, capWarning = True \<rparr>"
    by (simp add: waiting_def maxWaitSeconds_def js_min_def isNaN_def js_gt_def)
  from pos neg cap show ?thesis by blast
qed

text \<open>
  Witness for C7: 2.5 seconds is waited as 2500 ms without a warning, and \<open>-1\<close> is
  rejected.
\<close>

theorem C7_waiting_clamps_witness:
  "js_ge (Fin (5 / 2)) (Fin 0)
   \<and> waiting (Fin (5 / 2)) =
       Inr \<lparr> actualWaitSeconds = Fin (5 / 2), waitMs = Fin 2500, capWarning = False \<rparr>
   \<and> js_lt (Fin (- 1)) (Fin 0)
   \<and> waiting (Fin (- 1)) = Inl (InvalidWaitDuration (Fin (- 1)))"
proof -
  have h1: "js_ge (Fin (5 / 2)) (Fin 0)" by (simp add: js_ge_def)
  have h2: "js_lt (Fin (- 1)) (Fin 0)" by simp
  from C7_waiting_clamps [of "Fin (5 / 2)"] h1
  obtain run where r: "waiting (Fin (5 / 2)) = Inr run"
      "actualWaitSeconds run = js_min (Fin (5 / 2)) (Fin 300)"
      "waitMs run = js_times (actualWaitSeconds run) (Fin 1000)"
      "capWarning run = js_gt (Fin (5 / 2)) (Fin 300)"
    by blast
  have "run = \<lparr> actualWaitSeconds = Fin (5 / 2), waitMs = Fin 2500, capWarning = False \<rparr>"
    using r(2-4) by (cases run) (simp add: js_min_def isNaN_def js_gt_def)
  moreover from C7_waiting_clamps [of "Fin (- 1)"] h2
  have "waiting (Fin (- 1)) = Inl (InvalidWaitDuration (Fin (- 1)))" by blast
  ultimately show ?thesis using h1 h2 r(1) by simp
qed

section \<open>Strings of the error messages\<close>

text \<open>Decimal printing of integers, as a template literal prints them.\<close>

definition digit_char :: "nat \<Rightarrow> char" where
  "digit_char d = ''0123456789'' ! (d mod 10)"

fun show_nat :: "nat \<Rightarrow> string" where
  "show_nat n = (if n < 10 then [digit_char n] else show_nat (n div 10) @ [digit_char (n mod 10)])"

declare show_nat.simps [simp del]

definition show_int :: "int \<Rightarrow> string" where
  "show_int i = (if i < 0 then CHR ''-'' # show_nat (nat (- i)) else show_nat (nat i))"

text \<open>\<open>s.includes(p)\<close> and \<open>s.toUpperCase()\<close> on ASCII letters.\<close>

fun starts_with :: "string \<Rightarrow> string \<Rightarrow> bool" where
  "starts_with s [] = True"
| "starts_with [] (p # ps) = False"
| "starts_with (c # cs) (p # ps) = (c = p \<and> starts_with cs ps)"

fun js_includes :: "string \<Rightarrow> string \<Rightarrow> bool" where
  "js_includes [] p = (p = [])"
| "js_includes (c # cs) p = (starts_with (c # cs) p \<or> js_includes cs p)"

definition upper_char :: "char \<Rightarrow> char" where
  "upper_char c =
     (case map_of (zip ''abcdefghijklmnopqrstuvwxyz'' ''ABCDEFGHIJKLMNOPQRSTUVWXYZ'') c of
        Some u \<Rightarrow> u
      | None \<Rightarrow> c)"

definition toUpperCase :: "string \<Rightarrow> string" where
  "toUpperCase s = map upper_char s"

fun error_message :: "js_error \<Rightarrow> string" where
  "error_message (Error msg) = msg"
| "error_message (TypeError msg) = msg"

section \<open>Action gateway (ScriptingMode.ts)\<close>

text \<open>
  A request is an action type together with the payload that \<open>ActionPayload<T>\<close> gives
  that type, so \<open>domActions[type]\<close> is always one of the four executors.  Everything the
  gateway reads from outside is a field of \<open>GatewayEnv\<close>: the clock readings, the random
  string of the action id, the tab id of the store, the outcome of \<open>chrome.tabs.query\<close>
  (a throw, no tab, or the url of the first tab), the outcome of the user-agent script,
  the outcome of the executor (\<open>Inl\<close> is the value it threw), and the host name that
  \<open>new URL(url)\<close> yields (\<open>None\<close> when the constructor throws).  Of the \<open>details\<close>
  of a result, which repeat the request and the context, only \<open>originalError\<close> is kept.
\<close>

datatype ActionRequest =
    ClickRequest int
  | SetValueRequest int string
  | NavigateRequest string
  | WaitingRequest jsnum

fun request_type :: "ActionRequest \<Rightarrow> string" where
  "request_type (ClickRequest elementId) = ''click''"
| "request_type (SetValueRequest elementId v) = ''setValue''"
| "request_type (NavigateRequest url) = ''navigate''"
| "request_type (WaitingRequest seconds) = ''waiting''"

record ActionResult =
  ar_success :: bool
  ar_actionId :: string
  ar_duration :: int
  ar_error :: "string option"
  ar_originalError :: "string option"

record GatewayEnv =
  now_id :: int
  random36 :: string
  now_start :: int
  store_tabId :: nat
  tabs_query :: "js_error + string option option"
  userAgent_script :: "js_error + string option"
  executor :: "js_error + unit"
  now_end :: int
  now_mark :: int
  url_hostname :: "string \<Rightarrow> string option"

definition make_actionId :: "GatewayEnv \<Rightarrow> ActionRequest \<Rightarrow> string" where
  "make_actionId env req =
     request_type req @ ''_'' @ show_int (now_id env) @ ''_'' @ substr (random36 env) 2 9"

text \<open>
  The context gathered before the action: the url of the active tab and the user agent.
  A throw of \<open>chrome.tabs.query\<close> skips both; a throw of the user-agent script leaves the
  user agent empty.
\<close>

definition gather_context :: "GatewayEnv \<Rightarrow> string \<times> string" where
  "gather_context env =
     (case tabs_query env of
        Inl contextError \<Rightarrow> ('''', '''')
      | Inr tab0 \<Rightarrow>
          (let url = (case tab0 of None \<Rightarrow> ''''
                      | Some tabUrl \<Rightarrow> if truthy tabUrl then the tabUrl else ''unknown'');
               userAgent = (case userAgent_script env of
                              Inl e \<Rightarrow> ''''
                            | Inr ua \<Rightarrow> if truthy ua then the ua else '''')
           in (url, userAgent)))"

definition browser_info :: "string \<Rightarrow> string" where
  "browser_info userAgent =
     (if js_includes userAgent ''Chrome'' then ''Chrome''
      else if js_includes userAgent ''Firefox'' then ''Firefox''
      else if js_includes userAgent ''Safari'' then ''Safari'' else ''Unknown'')"

fun action_specific_context :: "ActionRequest \<Rightarrow> string" where
  "action_specific_context (ClickRequest elementId) =
     ''Element ID: '' @ show_int elementId @ ''. ''"
| "action_specific_context (SetValueRequest elementId v) =
     ''Element ID: '' @ show_int elementId @ ''. '' @
     (if v \<noteq> [] then
        (let valuePreview = (if length v > 50 then substring v 0 50 @ ''...'' else v)
         in ''Value length: '' @ show_nat (length v) @ '' chars, Preview: '' @ [CHR 0x22] @ valuePreview @ [CHR 0x22] @ ''. '')
      else [])"
| "action_specific_context (NavigateRequest url) = ''Target URL: '' @ url @ ''. ''"
| "action_specific_context (WaitingRequest seconds) = []"

definition build_error_message ::
  "GatewayEnv \<Rightarrow> ActionRequest \<Rightarrow> int \<Rightarrow> string \<Rightarrow> string \<Rightarrow> string \<Rightarrow> string" where
  "build_error_message env req duration url userAgent originalError =
     ''DOM Action failed: '' @ toUpperCase (request_type req) @ '' operation unsuccessful. '' @
     ''Duration: '' @ show_int duration @ ''ms. '' @
     (if store_tabId env \<noteq> 0 then ''Tab ID: '' @ show_nat (store_tabId env) @ ''. '' else []) @
     (if url \<noteq> [] \<and> url \<noteq> ''unknown'' then
        (case url_hostname env url of
           Some hostname \<Rightarrow> ''Domain: '' @ hostname @ ''. ''
         | None \<Rightarrow> ''URL: '' @ url @ ''. '')
      else []) @
     action_specific_context req @
     (if userAgent \<noteq> [] then ''Browser: '' @ browser_info userAgent @ ''. '' else []) @
     (if js_includes originalError ''operation failed for element'' \<or>
         js_includes originalError ''Navigation operation failed''
      then ''Details: '' @ originalError
      else ''Underlying error: '' @ originalError)"

text \<open>
  The body of the \<open>try\<close>: context, in-progress mark, the executor, the completion mark
  and the success result.  \<open>Inl\<close> carries the thrown value and the manager at the throw.
\<close>

definition try_body ::
  "GatewayEnv \<Rightarrow> ActionRequest \<Rightarrow> string \<Rightarrow> ActionStateManager \<Rightarrow>
   (js_error \<times> ActionStateManager) + (ActionResult \<times> ActionStateManager)" where
  "try_body env req actionId m =
     (let m1 = setActionInProgress actionId m in
      case executor env of
        Inl thrown \<Rightarrow> Inl (thrown, m1)
      | Inr unit \<Rightarrow>
          (let duration = now_end env - now_start env;
               m2 = completeAction actionId (now_mark env) m1
           in Inr (\<lparr> ar_success = True, ar_actionId = actionId, ar_duration = duration,
                     ar_error = None, ar_originalError = None \<rparr>, m2)))"

definition catch_body ::
  "GatewayEnv \<Rightarrow> ActionRequest \<Rightarrow> string \<Rightarrow> js_error \<Rightarrow> ActionStateManager \<Rightarrow>
   ActionResult \<times> ActionStateManager" where
  "catch_body env req actionId thrown m =
     (let duration = now_end env - now_start env;
          (url, userAgent) = gather_context env;
          originalError = error_message thrown;
          errorMessage = build_error_message env req duration url userAgent originalError;
          m1 = failAction actionId errorMessage (now_mark env) m
      in (\<lparr> ar_success = False, ar_actionId = actionId, ar_duration = duration,
             ar_error = Some errorMessage, ar_originalError = Some originalError \<rparr>, m1))"

definition callDOMAction ::
  "GatewayEnv \<Rightarrow> ActionRequest \<Rightarrow> ActionStateManager \<Rightarrow>
   js_error + (ActionResult \<times> ActionStateManager)" where
  "callDOMAction env req m =
     (let actionId = make_actionId env req;
          m0 = startAction actionId (request_type req) (now_start env) m
      in case try_body env req actionId m0 of
           Inr finished \<Rightarrow> Inr finished
         | Inl (thrown, m1) \<Rightarrow> Inr (catch_body env req actionId thrown m1))"

text \<open>The status and the recorded error of an action in the manager.\<close>

definition status_of :: "ActionStateManager \<Rightarrow> string \<Rightarrow> ActionStatus option" where
  "status_of m actionId = map_option status (actionStates m actionId)"

definition error_of :: "ActionStateManager \<Rightarrow> string \<Rightarrow> string option" where
  "error_of m actionId = (case actionStates m actionId of None \<Rightarrow> None | Some st \<Rightarrow> action_error st)"

subsection \<open>Properties of the gateway\<close>

lemma notifyCallbacks_status:
  "status_of (notifyCallbacks a s e m) b = status_of m b"
  "error_of (notifyCallbacks a s e m) b = error_of m b"
  by (simp_all add: status_of_def error_of_def notifyCallbacks_fields)

lemma started_then_completed:
  "status_of (completeAction a t2 (setActionInProgress a (startAction a ty t1 m))) a = Some Completed"
  "activeAction (completeAction a t2 (setActionInProgress a (startAction a ty t1 m))) = None"
  by (simp_all add: completeAction_def setActionInProgress_def startAction_def
      notifyCallbacks_fields Let_def status_of_def error_of_def)

lemma started_then_failed:
  "status_of (failAction a msg t2 (setActionInProgress a (startAction a ty t1 m))) a = Some Failed"
  "error_of (failAction a msg t2 (setActionInProgress a (startAction a ty t1 m))) a = Some msg"
  "activeAction (failAction a msg t2 (setActionInProgress a (startAction a ty t1 m))) = None"
  by (simp_all add: failAction_def setActionInProgress_def startAction_def
      notifyCallbacks_fields Let_def status_of_def error_of_def)

text \<open>
  Claim C10: for every request, environment and manager, \<open>callDOMAction\<close> returns a
  result and never a thrown value.  The result carries the action id and the duration;
  when the executor returns, the result has \<open>success = true\<close> and the action is recorded
  as completed; when the executor throws, the result has \<open>success = false\<close> and the
  constructed error message, and the action is recorded as failed with that message.
  In both cases the action is in a terminal state and the active slot is empty.
\<close>

theorem C10_callDOMAction_total:
  "\<exists>res m'. callDOMAction env req m = Inr (res, m')
     \<and> ar_actionId res = make_actionId env req
     \<and> ar_duration res = now_end env - now_start env
     \<and> activeAction m' = None
     \<and> (case executor env of
          Inr unit \<Rightarrow>
            ar_success res \<and> ar_error res = None
            \<and> status_of m' (make_actionId env req) = Some Completed
        | Inl thrown \<Rightarrow>
            \<not> ar_success res
            \<and> ar_error res = Some (build_error_message env req (now_end env - now_start env)
                  (fst (gather_context env)) (snd (gather_context env)) (error_message thrown))
            \<and> status_of m' (make_actionId env req) = Some Failed
            \<and> error_of m' (make_actionId env req) = ar_error res)"
proof (cases "executor env")
  case (Inl thrown)
  then show ?thesis
    by (simp add: callDOMAction_def try_body_def catch_body_def Let_def split_beta
        started_then_failed)
next
  case (Inr u)
  then show ?thesis
    by (simp add: callDOMAction_def try_body_def Let_def started_then_completed)
qed

text \<open>
  The gateway at a concrete failure: a click on element 7 whose executor throws, in tab 3
  on a page of \<open>example.com\<close>, 120 ms after the start.
\<close>

lemma callDOMAction_click_failure_message:
  "map_sum id (ar_error \<circ> fst)
     (callDOMAction
        \<lparr> now_id = 1000, random36 = ''0.abcdefghijk'', now_start = 1000, store_tabId = 3,
          tabs_query = Inr (Some (Some ''https://example.com/x'')),
          userAgent_script = Inr (Some ''Mozilla/5.0 Chrome/120''),
          executor = Inl (Error ''Click operation failed for element 7. Scroll: Not attempted. ''),
          now_end = 1120, now_mark = 1121,
          url_hostname = (\<lambda>u. if u = ''https://example.com/x'' then Some ''example.com'' else None) \<rparr>
        (ClickRequest 7) newManager)
   = Inr (Some (''DOM Action failed: CLICK operation unsuccessful. Duration: 120ms. Tab ID: 3. '' @
                ''Domain: example.com. Element ID: 7. Browser: Chrome. '' @
                ''Details: Click operation failed for element 7. Scroll: Not attempted. ''))"
  by (simp add: callDOMAction_def try_body_def catch_body_def Let_def gather_context_def
      build_error_message_def toUpperCase_def upper_char_def show_int_def show_nat.simps
      digit_char_def browser_info_def failAction_def setActionInProgress_def startAction_def
      newManager_def make_actionId_def substr_def notifyCallbacks_def)

section \<open>Configuration (Operation/config.ts)\<close>

definition COORDINATES_MAX_RETRIES :: nat where "COORDINATES_MAX_RETRIES = 3"
definition COORDINATES_RETRY_DELAY :: nat where "COORDINATES_RETRY_DELAY = 75"
definition VIEWPORT_MARGIN :: jsnum where "VIEWPORT_MARGIN = Fin 50"
definition MAX_COORDINATE_VALUE :: jsnum where "MAX_COORDINATE_VALUE = Fin 10000"

definition SCROLL_MAX_RETRIES :: nat where "SCROLL_MAX_RETRIES = 3"
definition VIEWPORT_TOLERANCE :: jsnum where "VIEWPORT_TOLERANCE = Fin 10"

section \<open>Coordinate engine (Operation/core/coordinates.ts)\<close>

text \<open>
  What one attempt of \<open>getCenterCoordinates\<close> meets: the outcome of
  \<open>getElementByNodeId\<close> (a thrown error or the unique id), what the injected script finds
  in the page (the injection throws, it delivers no result, or it runs on a page where
  the element is absent or has a bounding rectangle, in a viewport), and the outcome of
  the scroll script that is injected when the element lies outside the viewport.
\<close>

record DOMRect =
  rect_top :: jsnum
  rect_right :: jsnum
  rect_bottom :: jsnum
  rect_left :: jsnum
  rect_width :: jsnum
  rect_height :: jsnum

record Viewport =
  innerWidth :: jsnum
  innerHeight :: jsnum

datatype script_page =
    InjectionThrows js_error
  | NoResult
  | Page "DOMRect option" Viewport

record coord_attempt_env =
  lookup :: "js_error + string"
  page :: script_page
  scroll_script :: "js_error + bool"

text \<open>The value returned by the injected script (the computed style is left out).\<close>

datatype coord_script_result =
    CoordScriptError string bool "DOMRect option"
  | CoordScriptOk jsnum jsnum bool DOMRect Viewport

definition coordinates_script :: "DOMRect option \<Rightarrow> Viewport \<Rightarrow> jsnum \<Rightarrow> coord_script_result" where
  "coordinates_script element vp margin =
     (case element of
        None \<Rightarrow> CoordScriptError ''Element not found in DOM'' False None
      | Some rect \<Rightarrow>
          if js_le (rect_width rect) (Fin 0) \<or> js_le (rect_height rect) (Fin 0)
          then CoordScriptError ''Element has no dimensions'' True (Some rect)
          else
            (let inViewport =
                   (js_gt (rect_bottom rect) (js_neg margin) \<and>
                    js_gt (rect_right rect) (js_neg margin) \<and>
                    js_lt (rect_top rect) (js_plus (innerHeight vp) margin) \<and>
                    js_lt (rect_left rect) (js_plus (innerWidth vp) margin))
             in CoordScriptOk
                  (js_plus (rect_left rect) (js_div (rect_width rect) (Fin 2)))
                  (js_plus (rect_top rect) (js_div (rect_height rect) (Fin 2)))
                  inViewport rect vp))"

text \<open>
  The reasons recorded in \<open>lastError\<close>, as data instead of formatted text, and the two
  errors that leave the function: the one thrown by the \<open>catch\<close> block on the last
  attempt, and the one thrown after the loop.
\<close>

datatype coord_failure =
    LookupThrew js_error
  | ScriptThrew js_error
  | ScriptReported string
  | NullCoordinates
  | NotInViewport
  | InvalidCoordinates jsnum jsnum

datatype coordinate_error =
    RetriesExhausted "DOMRect option" bool coord_failure
  | MultipleAttemptsFailed "coord_failure option"

record coord_state =
  lastError :: "coord_failure option"
  lastRect :: "DOMRect option"
  elementFound :: bool
  sleeps :: "nat list"

datatype coord_step =
    Return jsnum jsnum
  | Throw coordinate_error
  | Continue coord_state

text \<open>
  The \<open>catch\<close> block: it records the message and, on the last attempt, throws the
  exhaustion error; otherwise it sleeps and the loop goes on.
\<close>

definition catch_block :: "nat \<Rightarrow> coord_failure \<Rightarrow> coord_state \<Rightarrow> coord_step" where
  "catch_block attempts failure st =
     (let st1 = st \<lparr> lastError := Some failure \<rparr> in
      if attempts = COORDINATES_MAX_RETRIES - 1
      then Throw (RetriesExhausted (lastRect st1) (elementFound st1) failure)
      else Continue (st1 \<lparr> sleeps := sleeps st1 @ [COORDINATES_RETRY_DELAY * (attempts + 1)] \<rparr>))"

text \<open>
  A \<open>throw\<close> inside the \<open>try\<close> on the last attempt lands in the same \<open>catch\<close> block;
  on earlier attempts the branch sleeps and continues.
\<close>

definition fail_or_retry :: "nat \<Rightarrow> coord_failure \<Rightarrow> coord_state \<Rightarrow> coord_step" where
  "fail_or_retry attempts failure st =
     (if attempts = COORDINATES_MAX_RETRIES - 1 then catch_block attempts failure st
      else Continue (st \<lparr> sleeps := sleeps st @ [COORDINATES_RETRY_DELAY * (attempts + 1)] \<rparr>))"

definition invalid_coordinates :: "jsnum \<Rightarrow> jsnum \<Rightarrow> bool" where
  "invalid_coordinates x y =
     (isNaN x \<or> isNaN y \<or> js_lt x (Fin 0) \<or> js_lt y (Fin 0) \<or>
      js_gt x MAX_COORDINATE_VALUE \<or> js_gt y MAX_COORDINATE_VALUE)"

definition attempt_body :: "coord_attempt_env \<Rightarrow> nat \<Rightarrow> coord_state \<Rightarrow> coord_step" where
  "attempt_body e attempts st =
     (case lookup e of
        Inl err \<Rightarrow> catch_block attempts (LookupThrew err) st
      | Inr uniqueId \<Rightarrow>
          (case page e of
             InjectionThrows err \<Rightarrow> catch_block attempts (ScriptThrew err) st
           | NoResult \<Rightarrow>
               fail_or_retry attempts NullCoordinates (st \<lparr> lastError := Some NullCoordinates \<rparr>)
           | Page element vp \<Rightarrow>
               (case coordinates_script element vp VIEWPORT_MARGIN of
                  CoordScriptError msg elementExists rect \<Rightarrow>
                    fail_or_retry attempts (ScriptReported msg)
                      (st \<lparr> elementFound := elementExists, lastRect := rect,
                            lastError := Some (ScriptReported msg) \<rparr>)
                | CoordScriptOk x y isVisible rect viewport \<Rightarrow>
                    if \<not> isVisible then
                      (let st1 = st \<lparr> lastRect := Some rect, lastError := Some NotInViewport \<rparr> in
                       case scroll_script e of
                         Inl err \<Rightarrow> catch_block attempts (ScriptThrew err) st1
                       | Inr scrolled \<Rightarrow>
                           Continue (st1 \<lparr> sleeps := sleeps st1 @ [COORDINATES_RETRY_DELAY] \<rparr>))
                    else if invalid_coordinates x y then
                      fail_or_retry attempts (InvalidCoordinates x y)
                        (st \<lparr> lastError := Some (InvalidCoordinates x y), lastRect := Some rect \<rparr>)
                    else Return x y)))"

record coord_result =
  co_outcome :: "coordinate_error + (jsnum \<times> jsnum)"
  co_attempts :: nat
  co_sleeps :: "nat list"

function coordinates_loop ::
  "(nat \<Rightarrow> coord_attempt_env) \<Rightarrow> nat \<Rightarrow> coord_state \<Rightarrow> coord_result" where
  "coordinates_loop env attempts st =
     (if attempts < COORDINATES_MAX_RETRIES then
        (case attempt_body (env attempts) attempts st of
           Return x y \<Rightarrow>
             \<lparr> co_outcome = Inr (x, y), co_attempts = attempts + 1, co_sleeps = sleeps st \<rparr>
         | Throw err \<Rightarrow>
             \<lparr> co_outcome = Inl err, co_attempts = attempts + 1, co_sleeps = sleeps st \<rparr>
         | Continue st1 \<Rightarrow> coordinates_loop env (attempts + 1) st1)
      else \<lparr> co_outcome = Inl (MultipleAttemptsFailed (lastError st)),
             co_attempts = attempts, co_sleeps = sleeps st \<rparr>)"
  by pat_completeness auto
termination
  by (relation "measure (\<lambda>(env, attempts, st). COORDINATES_MAX_RETRIES - attempts)") auto

declare coordinates_loop.simps [simp del]

definition getCenterCoordinates :: "(nat \<Rightarrow> coord_attempt_env) \<Rightarrow> coord_result" where
  "getCenterCoordinates env =
     coordinates_loop env 0 \<lparr> lastError = None, lastRect = None, elementFound = False, sleeps = [] \<rparr>"

subsection \<open>Properties of the coordinate engine\<close>

lemma not_invalid_coordinates:
  "\<not> invalid_coordinates x y \<Longrightarrow>
     \<not> isNaN x \<and> \<not> isNaN y \<and> js_le (Fin 0) x \<and> js_le x MAX_COORDINATE_VALUE
     \<and> js_le (Fin 0) y \<and> js_le y MAX_COORDINATE_VALUE"
  by (cases x; cases y)
     (auto simp: invalid_coordinates_def isNaN_def js_gt_def MAX_COORDINATE_VALUE_def)

lemma catch_block_cases:
  "catch_block a f st = Return x y \<longleftrightarrow> False"
  "catch_block a f st = Throw err \<Longrightarrow> a = COORDINATES_MAX_RETRIES - 1"
  by (auto simp: catch_block_def Let_def split: if_splits)

lemma fail_or_retry_cases:
  "fail_or_retry a f st = Return x y \<longleftrightarrow> False"
  "fail_or_retry a f st = Throw err \<Longrightarrow> a = COORDINATES_MAX_RETRIES - 1"
  by (auto simp: fail_or_retry_def catch_block_def Let_def split: if_splits)

lemma attempt_body_Return:
  "attempt_body e a st = Return x y \<Longrightarrow> \<not> invalid_coordinates x y"
  by (auto simp: attempt_body_def catch_block_cases fail_or_retry_cases Let_def
      split: sum.splits script_page.splits coord_script_result.splits if_splits)

lemma attempt_body_Throw:
  "attempt_body e a st = Throw err \<Longrightarrow> a = COORDINATES_MAX_RETRIES - 1"
  by (auto simp: attempt_body_def Let_def
      dest: catch_block_cases(2) fail_or_retry_cases(2)
      split: sum.splits script_page.splits coord_script_result.splits if_splits)

lemma coordinates_loop_outcome:
  "attempts \<le> COORDINATES_MAX_RETRIES \<Longrightarrow>
   (\<forall>x y. co_outcome (coordinates_loop env attempts st) = Inr (x, y) \<longrightarrow>
      \<not> invalid_coordinates x y
      \<and> co_attempts (coordinates_loop env attempts st) \<le> COORDINATES_MAX_RETRIES)
   \<and> (\<forall>err. co_outcome (coordinates_loop env attempts st) = Inl err \<longrightarrow>
      co_attempts (coordinates_loop env attempts st) = COORDINATES_MAX_RETRIES)"
proof (induction env attempts st rule: coordinates_loop.induct)
  case (1 env attempts st)
  show ?case
  proof (cases "attempts < COORDINATES_MAX_RETRIES")
    case False
    then have "coordinates_loop env attempts st =
        \<lparr> co_outcome = Inl (MultipleAttemptsFailed (lastError st)),
          co_attempts = attempts, co_sleeps = sleeps st \<rparr>"
      by (subst coordinates_loop.simps) simp
    with False "1.prems" show ?thesis by simp
  next
    case True
    show ?thesis
    proof (cases "attempt_body (env attempts) attempts st")
      case (Return x y)
      with True have "coordinates_loop env attempts st =
          \<lparr> co_outcome = Inr (x, y), co_attempts = attempts + 1, co_sleeps = sleeps st \<rparr>"
        by (subst coordinates_loop.simps) simp
      with True Return show ?thesis by (simp add: attempt_body_Return)
    next
      case (Throw err)
      then have last: "attempts = COORDINATES_MAX_RETRIES - 1" by (rule attempt_body_Throw)
      from True Throw have "coordinates_loop env attempts st =
          \<lparr> co_outcome = Inl err, co_attempts = attempts + 1, co_sleeps = sleeps st \<rparr>"
        by (subst coordinates_loop.simps) simp
      with True last show ?thesis by simp
    next
      case (Continue st1)
      with True have "coordinates_loop env attempts st = coordinates_loop env (attempts + 1) st1"
        by (subst coordinates_loop.simps) simp
      with True "1.IH" [OF True Continue] show ?thesis by simp
    qed
  qed
qed

text \<open>
  Claim C2: whatever the three attempts meet (so in particular for a valid handle whose
  element has a non-zero bounding box), \<open>getCenterCoordinates\<close> either returns
  coordinates that are not \<open>NaN\<close> and lie in \<open>[0, MAX_COORDINATE_VALUE]\<close>, having made at
  most 3 attempts, or raises its error after exactly 3 attempts.
\<close>

theorem C2_getCenterCoordinates_bounded:
  "(case co_outcome (getCenterCoordinates env) of
      Inr (x, y) \<Rightarrow>
        \<not> isNaN x \<and> \<not> isNaN y
        \<and> js_le (Fin 0) x \<and> js_le x (Fin 10000)
        \<and> js_le (Fin 0) y \<and> js_le y (Fin 10000)
        \<and> co_attempts (getCenterCoordinates env) \<le> 3
    | Inl err \<Rightarrow> co_attempts (getCenterCoordinates env) = 3)"
proof -
  let ?r = "getCenterCoordinates env"
  have "0 \<le> COORDINATES_MAX_RETRIES" by simp
  from coordinates_loop_outcome [OF this, of env
      "\<lparr> lastError = None, lastRect = None, elementFound = False, sleeps = [] \<rparr>"]
  have ok: "\<And>x y. co_outcome ?r = Inr (x, y) \<Longrightarrow>
              \<not> invalid_coordinates x y \<and> co_attempts ?r \<le> COORDINATES_MAX_RETRIES"
    and err: "\<And>e. co_outcome ?r = Inl e \<Longrightarrow> co_attempts ?r = COORDINATES_MAX_RETRIES"
    unfolding getCenterCoordinates_def by blast+
  show ?thesis
  proof (cases "co_outcome ?r")
    case (Inl e)
    with err [OF Inl] show ?thesis by (simp add: COORDINATES_MAX_RETRIES_def)
  next
    case (Inr xy)
    obtain x y where xy: "xy = (x, y)" by (cases xy)
    from ok [of x y] Inr xy not_invalid_coordinates [of x y]
    show ?thesis by (simp add: COORDINATES_MAX_RETRIES_def MAX_COORDINATE_VALUE_def)
  qed
qed

text \<open>
  Two runs.  An element of 100 by 40 at (20, 10) in a viewport of 800 by 600 yields its
  centre (70, 30) on the first attempt.  An element whose rectangle has width 0 is retried
  with sleeps of 75 ms and 150 ms and the error is raised on the third attempt.
\<close>

lemma getCenterCoordinates_centre:
  "getCenterCoordinates (\<lambda>i. \<lparr> lookup = Inr ''k3x9'',
       page = Page (Some \<lparr> rect_top = Fin 10, rect_right = Fin 120, rect_bottom = Fin 50,
                            rect_left = Fin 20, rect_width = Fin 100, rect_height = Fin 40 \<rparr>)
                   \<lparr> innerWidth = Fin 800, innerHeight = Fin 600 \<rparr>,
       scroll_script = Inr True \<rparr>)
   = \<lparr> co_outcome = Inr (Fin 70, Fin 30), co_attempts = 1, co_sleeps = [] \<rparr>"
  by (simp add: getCenterCoordinates_def coordinates_loop.simps COORDINATES_MAX_RETRIES_def
      attempt_body_def coordinates_script_def VIEWPORT_MARGIN_def invalid_coordinates_def
      MAX_COORDINATE_VALUE_def isNaN_def js_gt_def)

lemma getCenterCoordinates_no_dimensions:
  "getCenterCoordinates (\<lambda>i. \<lparr> lookup = Inr ''k3x9'',
       page = Page (Some \<lparr> rect_top = Fin 10, rect_right = Fin 20, rect_bottom = Fin 50,
                            rect_left = Fin 20, rect_width = Fin 0, rect_height = Fin 40 \<rparr>)
                   \<lparr> innerWidth = Fin 800, innerHeight = Fin 600 \<rparr>,
       scroll_script = Inr True \<rparr>)
   = \<lparr> co_outcome = Inl (RetriesExhausted
          (Some \<lparr> rect_top = Fin 10, rect_right = Fin 20, rect_bottom = Fin 50,
                   rect_left = Fin 20, rect_width = Fin 0, rect_height = Fin 40 \<rparr>)
          True (ScriptReported ''Element has no dimensions'')),
       co_attempts = 3, co_sleeps = [75, 150] \<rparr>"
  by (simp add: getCenterCoordinates_def coordinates_loop.simps COORDINATES_MAX_RETRIES_def
      COORDINATES_RETRY_DELAY_def attempt_body_def coordinates_script_def VIEWPORT_MARGIN_def
      fail_or_retry_def catch_block_def)

section \<open>Scroll engine (Operation/actions/scroll.ts)\<close>

text \<open>
  The result of the injected scroll script.  Optional fields are \<open>None\<close> when the
  script leaves them out; an absent boolean is falsy.
\<close>

record ScrollResult =
  sr_success :: bool
  sr_reason :: string
  sr_position :: "(jsnum \<times> jsnum \<times> jsnum \<times> jsnum) option"
  sr_isFullyVisible :: "bool option"
  sr_isPartiallyVisible :: "bool option"
  sr_madeProgress :: "bool option"

definition is_true :: "bool option \<Rightarrow> bool" where
  "is_true b = (b = Some True)"

text \<open>
  The page as the scroll script meets it: the rectangle of the element when the script
  starts, the viewport, the ancestors between the element and the body (for each,
  whether it is scrollable with overflowing content and whether its \<open>scrollTo\<close> throws),
  whether each of the scroll methods 2 to 5 throws, and the rectangle of the element when
  the verification timer fires.  The length of that timer is not represented.
\<close>

record scroll_page =
  sp_initialRect :: DOMRect
  sp_viewport :: Viewport
  sp_ancestors :: "(bool \<times> bool) list"
  sp_method2_throws :: bool
  sp_method3_throws :: bool
  sp_method4_throws :: bool
  sp_method5_throws :: bool
  sp_newRect :: DOMRect

definition position_of :: "DOMRect \<Rightarrow> jsnum \<times> jsnum \<times> jsnum \<times> jsnum" where
  "position_of r = (rect_left r, rect_top r, rect_width r, rect_height r)"

definition scroll_attempted :: "scroll_page \<Rightarrow> bool" where
  "scroll_attempted p =
     (let foundScrollableParent = list_ex (\<lambda>(scrollable, throws). scrollable \<and> \<not> throws) (sp_ancestors p)
      in if foundScrollableParent then True
         else if \<not> sp_method2_throws p then True
         else if \<not> sp_method3_throws p then True
         else if \<not> sp_method4_throws p then True
         else \<not> sp_method5_throws p)"

definition verify_scroll :: "scroll_page \<Rightarrow> jsnum \<Rightarrow> ScrollResult" where
  "verify_scroll p tolerance =
     (let newRect = sp_newRect p; initialRect = sp_initialRect p;
          viewportHeight = innerHeight (sp_viewport p);
          viewportWidth = innerWidth (sp_viewport p);
          expandedTolerance = js_times tolerance (Fin 3);
          isFullyVisible =
            (js_ge (rect_top newRect) (js_neg expandedTolerance) \<and>
             js_ge (rect_left newRect) (js_neg expandedTolerance) \<and>
             js_le (rect_bottom newRect) (js_plus viewportHeight expandedTolerance) \<and>
             js_le (rect_right newRect) (js_plus viewportWidth expandedTolerance));
          isPartiallyVisible =
            (js_lt (rect_top newRect) (js_plus viewportHeight expandedTolerance) \<and>
             js_gt (rect_bottom newRect) (js_neg expandedTolerance) \<and>
             js_lt (rect_left newRect) (js_plus viewportWidth expandedTolerance) \<and>
             js_gt (rect_right newRect) (js_neg expandedTolerance));
          madeProgress =
            (js_gt (js_abs (js_minus (rect_top newRect) (rect_top initialRect))) (Fin 5) \<or>
             js_gt (js_abs (js_minus (rect_left newRect) (rect_left initialRect))) (Fin 5));
          centerX = js_plus (rect_left newRect) (js_div (rect_width newRect) (Fin 2));
          centerY = js_plus (rect_top newRect) (js_div (rect_height newRect) (Fin 2));
          visibleArea =
            js_times
              (js_max (Fin 0) (js_minus (js_min (rect_right newRect) viewportWidth)
                                        (js_max (rect_left newRect) (Fin 0))))
              (js_max (Fin 0) (js_minus (js_min (rect_bottom newRect) viewportHeight)
                                        (js_max (rect_top newRect) (Fin 0))));
          isAcceptablyVisible =
            (isPartiallyVisible \<and>
              ((js_ge centerX (js_neg expandedTolerance) \<and>
                js_le centerX (js_plus viewportWidth expandedTolerance) \<and>
                js_ge centerY (js_neg expandedTolerance) \<and>
                js_le centerY (js_plus viewportHeight expandedTolerance)) \<or>
               js_ge visibleArea
                 (js_times (js_times (rect_width newRect) (rect_height newRect)) (Fin (1 / 10))) \<or>
               madeProgress))
      in \<lparr> sr_success = (isFullyVisible \<or> isAcceptablyVisible),
           sr_reason = (if isFullyVisible then ''Fully visible''
                        else if isAcceptablyVisible then ''Acceptably visible''
                        else if madeProgress then ''Made progress but not visible''
                        else ''Still not visible''),
           sr_position = Some (position_of newRect),
           sr_isFullyVisible = Some isFullyVisible,
           sr_isPartiallyVisible = Some isPartiallyVisible,
           sr_madeProgress = Some madeProgress \<rparr>)"

definition scroll_script :: "scroll_page option \<Rightarrow> jsnum \<Rightarrow> ScrollResult" where
  "scroll_script element tolerance =
     (case element of
        None \<Rightarrow> \<lparr> sr_success = False, sr_reason = ''Element not found'', sr_position = None,
                   sr_isFullyVisible = None, sr_isPartiallyVisible = None, sr_madeProgress = None \<rparr>
      | Some p \<Rightarrow>
          (let initialRect = sp_initialRect p in
           if js_le (rect_width initialRect) (Fin 0) \<or> js_le (rect_height initialRect) (Fin 0)
           then \<lparr> sr_success = False, sr_reason = ''Element has no dimensions'',
                  sr_position = Some (position_of initialRect),
                  sr_isFullyVisible = None, sr_isPartiallyVisible = None, sr_madeProgress = None \<rparr>
           else
             (let viewportHeight = innerHeight (sp_viewport p);
                  viewportWidth = innerWidth (sp_viewport p);
                  twice = js_times tolerance (Fin 2);
                  isAlreadyVisible =
                    (js_ge (rect_top initialRect) (js_neg twice) \<and>
                     js_ge (rect_left initialRect) (js_neg twice) \<and>
                     js_le (rect_bottom initialRect) (js_plus viewportHeight twice) \<and>
                     js_le (rect_right initialRect) (js_plus viewportWidth twice))
              in if isAlreadyVisible
                 then \<lparr> sr_success = True, sr_reason = ''Already visible'',
                        sr_position = Some (position_of initialRect),
                        sr_isFullyVisible = Some True, sr_isPartiallyVisible = Some True,
                        sr_madeProgress = Some False \<rparr>
                 else if \<not> scroll_attempted p
                 then \<lparr> sr_success = False, sr_reason = ''No scroll method succeeded'',
                        sr_position = None, sr_isFullyVisible = None,
                        sr_isPartiallyVisible = None, sr_madeProgress = None \<rparr>
                 else verify_scroll p tolerance)))"

text \<open>
  The last-resort script of the final \<open>catch\<close>: it forces a scroll, tries to focus, and
  reports whether the rectangle it then reads lies within 100 pixels of the viewport.
\<close>

definition last_resort_script :: "(DOMRect \<times> Viewport) option \<Rightarrow> bool" where
  "last_resort_script element =
     (case element of
        None \<Rightarrow> False
      | Some (rect, vp) \<Rightarrow>
          js_lt (rect_top rect) (js_plus (innerHeight vp) (Fin 100)) \<and>
          js_gt (rect_bottom rect) (Fin (- 100)) \<and>
          js_lt (rect_left rect) (js_plus (innerWidth vp) (Fin 100)) \<and>
          js_gt (rect_right rect) (Fin (- 100)))"

text \<open>
  What one attempt of \<open>scrollIntoView\<close> meets.  The last two fields are read only by the
  last-resort path.
\<close>

datatype scroll_injection =
    ScrollInjectionThrows js_error
  | ScrollNoResult
  | ScrollPage "scroll_page option"

datatype last_resort_injection =
    LastResortThrows js_error
  | LastResortNoResult
  | LastResortPage "(DOMRect \<times> Viewport) option"

record scroll_attempt_env =
  sc_lookup :: "js_error + string"
  sc_page :: scroll_injection
  lr_lookup :: "js_error + string"
  lr_page :: last_resort_injection

record ScrollOutcome =
  so_success :: bool
  so_partialSuccess :: bool
  so_reason :: "string option"

record scroll_state =
  bestResult :: "ScrollResult option"
  anyProgressMade :: bool

datatype scroll_step = ScrollReturn ScrollOutcome | ScrollContinue scroll_state

definition last_resort :: "scroll_attempt_env \<Rightarrow> bool" where
  "last_resort e =
     (case lr_lookup e of
        Inl err \<Rightarrow> False
      | Inr uniqueId \<Rightarrow>
          (case lr_page e of
             LastResortThrows err \<Rightarrow> False
           | LastResortNoResult \<Rightarrow> False
           | LastResortPage element \<Rightarrow> last_resort_script element))"

definition scroll_catch :: "scroll_attempt_env \<Rightarrow> nat \<Rightarrow> scroll_state \<Rightarrow> scroll_step" where
  "scroll_catch e attempt st =
     (if attempt = SCROLL_MAX_RETRIES - 1 \<and> last_resort e
      then ScrollReturn \<lparr> so_success = True, so_partialSuccess = True, so_reason = None \<rparr>
      else ScrollContinue st)"

definition scroll_attempt :: "scroll_attempt_env \<Rightarrow> nat \<Rightarrow> scroll_state \<Rightarrow> scroll_step" where
  "scroll_attempt e attempt st =
     (case sc_lookup e of
        Inl err \<Rightarrow> scroll_catch e attempt st
      | Inr uniqueId \<Rightarrow>
          (case sc_page e of
             ScrollInjectionThrows err \<Rightarrow> scroll_catch e attempt st
           | ScrollNoResult \<Rightarrow> ScrollContinue st
           | ScrollPage element \<Rightarrow>
               (let scrollResult = scroll_script element VIEWPORT_TOLERANCE;
                    st1 = (if bestResult st = None \<or> sr_success scrollResult
                              \<or> is_true (sr_madeProgress scrollResult)
                           then st \<lparr> bestResult := Some scrollResult \<rparr> else st);
                    st2 = (if is_true (sr_madeProgress scrollResult)
                           then st1 \<lparr> anyProgressMade := True \<rparr> else st1)
                in if sr_success scrollResult
                   then ScrollReturn \<lparr> so_success = True, so_partialSuccess = True, so_reason = None \<rparr>
                   else ScrollContinue st2)))"

definition scroll_exhausted :: "scroll_state \<Rightarrow> ScrollOutcome" where
  "scroll_exhausted st =
     (let partialSuccess =
            (anyProgressMade st \<or>
             (case bestResult st of
                None \<Rightarrow> False
              | Some best \<Rightarrow> is_true (sr_isPartiallyVisible best) \<or> is_true (sr_madeProgress best)))
      in \<lparr> so_success = False, so_partialSuccess = partialSuccess,
           so_reason = Some (case bestResult st of
                               None \<Rightarrow> ''Failed to scroll element into view after all attempts''
                             | Some best \<Rightarrow>
                                 if sr_reason best \<noteq> [] then sr_reason best
                                 else ''Failed to scroll element into view after all attempts'') \<rparr>)"

function scroll_loop ::
  "(nat \<Rightarrow> scroll_attempt_env) \<Rightarrow> nat \<Rightarrow> scroll_state \<Rightarrow> ScrollOutcome" where
  "scroll_loop env attempt st =
     (if attempt < SCROLL_MAX_RETRIES then
        (case scroll_attempt (env attempt) attempt st of
           ScrollReturn outcome \<Rightarrow> outcome
         | ScrollContinue st1 \<Rightarrow> scroll_loop env (attempt + 1) st1)
      else scroll_exhausted st)"
  by pat_completeness auto
termination
  by (relation "measure (\<lambda>(env, attempt, st). SCROLL_MAX_RETRIES - attempt)") auto

declare scroll_loop.simps [simp del]

definition scrollIntoView :: "(nat \<Rightarrow> scroll_attempt_env) \<Rightarrow> ScrollOutcome" where
  "scrollIntoView env = scroll_loop env 0 \<lparr> bestResult = None, anyProgressMade = False \<rparr>"

text \<open>
  The two ways in which an attempt ends the loop with success: the scroll script of
  attempt \<open>i\<close> reports success, or the last attempt throws and the last-resort script
  reports the element near the viewport.
\<close>

definition script_succeeds :: "scroll_attempt_env \<Rightarrow> bool" where
  "script_succeeds e =
     (case sc_lookup e of
        Inl err \<Rightarrow> False
      | Inr uniqueId \<Rightarrow>
          (case sc_page e of
             ScrollPage element \<Rightarrow> sr_success (scroll_script element VIEWPORT_TOLERANCE)
           | _ \<Rightarrow> False))"

definition attempt_throws :: "scroll_attempt_env \<Rightarrow> bool" where
  "attempt_throws e =
     (case sc_lookup e of
        Inl err \<Rightarrow> True
      | Inr uniqueId \<Rightarrow> (case sc_page e of ScrollInjectionThrows err \<Rightarrow> True | _ \<Rightarrow> False))"

definition has_dimensions :: "DOMRect \<Rightarrow> bool" where
  "has_dimensions r = (\<not> js_le (rect_width r) (Fin 0) \<and> \<not> js_le (rect_height r) (Fin 0))"
subsection \<open>Properties of the scroll engine\<close>

text \<open>The scroll script reports success only for an element that has dimensions.\<close>

lemma scroll_script_success_dimensions:
  "sr_success (scroll_script element tolerance) \<Longrightarrow>
   \<exists>p. element = Some p \<and> has_dimensions (sp_initialRect p)"
  by (cases element) (auto simp: scroll_script_def has_dimensions_def Let_def split: if_splits)

lemma scroll_attempt_Return:
  "scroll_attempt e attempt st = ScrollReturn outcome \<Longrightarrow>
   script_succeeds e \<or> (attempt = SCROLL_MAX_RETRIES - 1 \<and> attempt_throws e \<and> last_resort e)"
  by (auto simp: scroll_attempt_def scroll_catch_def script_succeeds_def attempt_throws_def Let_def
      split: sum.splits scroll_injection.splits if_splits)

lemma scroll_loop_success:
  "so_success (scroll_loop env attempt st) \<Longrightarrow>
   (\<exists>i. attempt \<le> i \<and> i < SCROLL_MAX_RETRIES \<and> script_succeeds (env i))
   \<or> (attempt_throws (env (SCROLL_MAX_RETRIES - 1)) \<and> last_resort (env (SCROLL_MAX_RETRIES - 1)))"
proof (induction env attempt st rule: scroll_loop.induct)
  case (1 env attempt st)
  show ?case
  proof (cases "attempt < SCROLL_MAX_RETRIES")
    case False
    then have "scroll_loop env attempt st = scroll_exhausted st"
      by (subst scroll_loop.simps) simp
    with "1.prems" show ?thesis by (simp add: scroll_exhausted_def Let_def)
  next
    case True
    show ?thesis
    proof (cases "scroll_attempt (env attempt) attempt st")
      case (ScrollReturn outcome)
      from scroll_attempt_Return [OF this] True show ?thesis by auto
    next
      case (ScrollContinue st1)
      with True have "scroll_loop env attempt st = scroll_loop env (attempt + 1) st1"
        by (subst scroll_loop.simps) simp
      with "1.prems" "1.IH" [OF True ScrollContinue] show ?thesis
        by (auto intro: Suc_leD)
    qed
  qed
qed

text \<open>
  On the path through the scroll script the guard holds: when \<open>scrollIntoView\<close> reports
  success and the last-resort path did not fire, some attempt ran the script on an element
  whose rectangle had positive width and height when the script started.
\<close>

lemma scrollIntoView_script_path_dimensions:
  assumes "so_success (scrollIntoView env)"
    and "\<not> (attempt_throws (env 2) \<and> last_resort (env 2))"
  shows "\<exists>i < 3. \<exists>p. sc_page (env i) = ScrollPage (Some p) \<and> has_dimensions (sp_initialRect p)"
proof -
  from scroll_loop_success [OF assms(1) [unfolded scrollIntoView_def]] assms(2)
  obtain i where i: "i < 3" "script_succeeds (env i)"
    by (auto simp: SCROLL_MAX_RETRIES_def)
  from i(2) obtain element where "sc_page (env i) = ScrollPage element"
      "sr_success (scroll_script element VIEWPORT_TOLERANCE)"
    by (auto simp: script_succeeds_def split: sum.splits scroll_injection.splits)
  with scroll_script_success_dimensions [of element VIEWPORT_TOLERANCE] i(1)
  show ?thesis by blast
qed

text \<open>
  Claim C4 at the input where the code departs from it: an element of width 0 and height
  0 at (10, 10) in a viewport of 800 by 600.  The first two attempts run the scroll
  script, which refuses the element for having no dimensions.  The third attempt throws
  before the script runs (the element lookup fails once), so the \<open>catch\<close> block enters
  the last-resort path; there the lookup succeeds and the element is within 100 pixels of
  the viewport.  The last-resort script does not test the dimensions and
  \<open>scrollIntoView\<close> returns \<open>success = true\<close>.
\<close>

theorem C4_last_resort_ignores_dimensions:
  "\<not> has_dimensions \<lparr> rect_top = Fin 10, rect_right = Fin 10, rect_bottom = Fin 10,
                       rect_left = Fin 10, rect_width = Fin 0, rect_height = Fin 0 \<rparr>
   \<and> scrollIntoView (\<lambda>i.
        \<lparr> sc_lookup = (if i = 2 then Inl (Error ''Could not establish connection'')
                       else Inr ''k3x9''),
          sc_page = ScrollPage (Some
            \<lparr> sp_initialRect = \<lparr> rect_top = Fin 10, rect_right = Fin 10, rect_bottom = Fin 10,
                                 rect_left = Fin 10, rect_width = Fin 0, rect_height = Fin 0 \<rparr>,
              sp_viewport = \<lparr> innerWidth = Fin 800, innerHeight = Fin 600 \<rparr>,
              sp_ancestors = [], sp_method2_throws = False, sp_method3_throws = False,
              sp_method4_throws = False, sp_method5_throws = False,
              sp_newRect = \<lparr> rect_top = Fin 10, rect_right = Fin 10, rect_bottom = Fin 10,
                             rect_left = Fin 10, rect_width = Fin 0, rect_height = Fin 0 \<rparr> \<rparr>),
          lr_lookup = Inr ''k3x9'',
          lr_page = LastResortPage (Some
            (\<lparr> rect_top = Fin 10, rect_right = Fin 10, rect_bottom = Fin 10,
               rect_left = Fin 10, rect_width = Fin 0, rect_height = Fin 0 \<rparr>,
             \<lparr> innerWidth = Fin 800, innerHeight = Fin 600 \<rparr>)) \<rparr>)
     = \<lparr> so_success = True, so_partialSuccess = True, so_reason = None \<rparr>"
  by (simp add: has_dimensions_def scrollIntoView_def scroll_loop.simps SCROLL_MAX_RETRIES_def
      scroll_attempt_def scroll_script_def VIEWPORT_TOLERANCE_def is_true_def Let_def
      scroll_catch_def last_resort_def last_resort_script_def js_gt_def)

text \<open>
  The same element met by the scroll script itself is refused on every attempt, and
  \<open>scrollIntoView\<close> reports failure.
\<close>

lemma scrollIntoView_no_dimensions_refused:
  "scrollIntoView (\<lambda>i.
        \<lparr> sc_lookup = Inr ''k3x9'',
          sc_page = ScrollPage (Some
            \<lparr> sp_initialRect = \<lparr> rect_top = Fin 10, rect_right = Fin 10, rect_bottom = Fin 10,
                                 rect_left = Fin 10, rect_width = Fin 0, rect_height = Fin 0 \<rparr>,
              sp_viewport = \<lparr> innerWidth = Fin 800, innerHeight = Fin 600 \<rparr>,
              sp_ancestors = [], sp_method2_throws = False, sp_method3_throws = False,
              sp_method4_throws = False, sp_method5_throws = False,
              sp_newRect = \<lparr> rect_top = Fin 10, rect_right = Fin 10, rect_bottom = Fin 10,
                             rect_left = Fin 10, rect_width = Fin 0, rect_height = Fin 0 \<rparr> \<rparr>),
          lr_lookup = Inr ''k3x9'',
          lr_page = LastResortNoResult \<rparr>)
     = \<lparr> so_success = False, so_partialSuccess = False,
         so_reason = Some ''Element has no dimensions'' \<rparr>"
  by (simp add: scrollIntoView_def scroll_loop.simps SCROLL_MAX_RETRIES_def scroll_attempt_def
      scroll_script_def VIEWPORT_TOLERANCE_def is_true_def scroll_exhausted_def Let_def)

section \<open>Click executor (Operation/actions/click.ts)\<close>

text \<open>
  The outcome of injecting a script with \<open>executeScript\<close>: the injection throws, it
  delivers no result (\<open>result[0]?.result\<close> is \<open>undefined\<close>), or the script ran and
  returned a value.
\<close>

datatype 'a injected = InjectThrows js_error | InjectUndefined | Injected 'a

text \<open>
  What the page has at the computed point: nothing, the target itself, a descendant of
  the target, an ancestor of the target, or an unrelated element.
\<close>

datatype point_hit = NoElementAtPoint | TargetAtPoint | InsideTarget | AroundTarget | OtherElement

record click_page =
  cp_target_found :: bool
  cp_hit :: point_hit

text \<open>
  The visibility script looks the target up and compares it with
  \<open>document.elementFromPoint(x, y)\<close>; the primary click script dispatches
  \<open>mousedown\<close>, \<open>click\<close> and \<open>mouseup\<close> on whatever element is at the point and
  reports whether there was one.
\<close>

definition visibility_script :: "click_page \<Rightarrow> bool" where
  "visibility_script p =
     (if \<not> cp_target_found p then False
      else case cp_hit p of
             NoElementAtPoint \<Rightarrow> False
           | TargetAtPoint \<Rightarrow> True
           | InsideTarget \<Rightarrow> True
           | AroundTarget \<Rightarrow> True
           | OtherElement \<Rightarrow> False)"

definition primary_click_script :: "click_page \<Rightarrow> bool" where
  "primary_click_script p = (cp_hit p \<noteq> NoElementAtPoint)"

record ClickResult =
  clr_success :: bool
  clr_reason :: "string option"
  clr_method :: "string option"

text \<open>
  Everything \<open>click\<close> reads from outside: the result of the first \<open>scrollIntoView\<close>
  (which never throws), the outcome of the call of \<open>getCenterCoordinates\<close> made at each
  value of \<open>retryCount\<close>, the page met by the visibility script, the outcome of
  \<open>getCenterCoordinates\<close> after a re-scroll, the result of \<open>moveCursor\<close> (which never
  throws), the page met by the primary click script, and the lookup and the result of
  the backup script.
\<close>

record click_env =
  ce_scroll :: ScrollOutcome
  ce_coords :: "nat \<Rightarrow> js_error + (jsnum \<times> jsnum)"
  ce_check :: "click_page injected"
  ce_rescroll_coords :: "js_error + (jsnum \<times> jsnum)"
  ce_moveCursor :: bool
  ce_click :: "click_page injected"
  ce_backup_lookup :: "js_error + string"
  ce_backup :: "ClickResult injected"

record OperationContext =
  cx_scrollAttempted :: bool
  cx_scrollSuccess :: bool
  cx_scrollPartialSuccess :: bool
  cx_coordinatesObtained :: bool
  cx_coordinates :: "(jsnum \<times> jsnum) option"
  cx_cursorMoved :: bool
  cx_primaryClickAttempted :: bool
  cx_backupClickAttempted :: bool
  cx_lastError :: "string option"

definition initial_context :: OperationContext where
  "initial_context =
     \<lparr> cx_scrollAttempted = False, cx_scrollSuccess = False, cx_scrollPartialSuccess = False,
       cx_coordinatesObtained = False, cx_coordinates = None, cx_cursorMoved = False,
       cx_primaryClickAttempted = False, cx_backupClickAttempted = False, cx_lastError = None \<rparr>"

text \<open>
  The error thrown by \<open>click\<close> is built by \<open>buildClickErrorMessage\<close> from the element id
  and the operation context; it is represented by that context.  The outer \<open>catch\<close>
  rethrows unchanged an error whose message already contains the phrase
  \<open>Click operation failed for element\<close>.
\<close>

datatype click_error = ClickOperationFailed OperationContext | Rethrown js_error

definition MAX_COORDINATE_RETRIES :: nat where "MAX_COORDINATE_RETRIES = 3"
definition COORDINATE_STABILITY_THRESHOLD :: jsnum where "COORDINATE_STABILITY_THRESHOLD = Fin 2"

definition is_stable :: "jsnum \<times> jsnum \<Rightarrow> jsnum \<times> jsnum \<Rightarrow> bool" where
  "is_stable old new =
     (js_le (js_abs (js_minus (fst old) (fst new))) COORDINATE_STABILITY_THRESHOLD \<and>
      js_le (js_abs (js_minus (snd old) (snd new))) COORDINATE_STABILITY_THRESHOLD)"

function coordinate_retries ::
  "click_env \<Rightarrow> nat \<Rightarrow> bool \<Rightarrow> OperationContext \<Rightarrow> OperationContext" where
  "coordinate_retries env retryCount stableCoordinates ctx =
     (if \<not> stableCoordinates \<and> retryCount < MAX_COORDINATE_RETRIES then
        (case ce_coords env retryCount of
           Inr newCoordinates \<Rightarrow>
             (let ctx1 = ctx \<lparr> cx_coordinatesObtained := True \<rparr> in
              case cx_coordinates ctx1 of
                None \<Rightarrow>
                  coordinate_retries env (retryCount + 1) False
                    (ctx1 \<lparr> cx_coordinates := Some newCoordinates \<rparr>)
              | Some old \<Rightarrow>
                  coordinate_retries env (retryCount + 1) (is_stable old newCoordinates)
                    (ctx1 \<lparr> cx_coordinates := Some newCoordinates \<rparr>))
         | Inl coordError \<Rightarrow>
             (let ctx1 = ctx \<lparr> cx_lastError :=
                           Some (''Coordinate detection failed: '' @ error_message coordError) \<rparr>
              in if so_partialSuccess (ce_scroll env) then ctx1
                 else coordinate_retries env (retryCount + 1) stableCoordinates ctx1))
      else ctx)"
  by pat_completeness auto
termination
  by (relation "measure (\<lambda>(env, retryCount, stable, ctx). MAX_COORDINATE_RETRIES - retryCount)") auto

declare coordinate_retries.simps [simp del]

text \<open>
  The scroll and coordinate phase (the first inner \<open>try\<close>).  It returns the context and
  the flag \<open>useBackupMethod\<close>.
\<close>

definition scroll_phase :: "click_env \<Rightarrow> OperationContext \<times> bool" where
  "scroll_phase env =
     (let scrollResult = ce_scroll env;
          ctx1 = initial_context \<lparr> cx_scrollAttempted := True,
                                   cx_scrollSuccess := so_success scrollResult,
                                   cx_scrollPartialSuccess := so_partialSuccess scrollResult \<rparr>;
          ctx2 = (if \<not> so_success scrollResult \<and> \<not> so_partialSuccess scrollResult
                  then ctx1 \<lparr> cx_lastError := Some (''Scroll failed: '' @
                         (case so_reason scrollResult of None \<Rightarrow> ''undefined'' | Some r \<Rightarrow> r)) \<rparr>
                  else ctx1);
          ctx3 = coordinate_retries env 0 False ctx2
      in case cx_coordinates ctx3 of
           None \<Rightarrow> (ctx3, so_partialSuccess scrollResult)
         | Some xy \<Rightarrow>
             (case ce_check env of
                InjectThrows scrollError \<Rightarrow>
                  (ctx3 \<lparr> cx_lastError := Some (''Scroll/coordinate phase failed: '' @
                                                error_message scrollError) \<rparr>, True)
              | checked \<Rightarrow>
                  (let isVisible = (case checked of Injected p \<Rightarrow> visibility_script p | _ \<Rightarrow> False) in
                   if \<not> isVisible \<and> so_partialSuccess scrollResult then
                     (ctx3 \<lparr> cx_lastError :=
                         Some ''Element not visible at computed coordinates after scroll'' \<rparr>, False)
                   else if \<not> isVisible then
                     (case ce_rescroll_coords env of
                        Inr fresh \<Rightarrow> (ctx3 \<lparr> cx_coordinates := Some fresh \<rparr>, False)
                      | Inl coordError \<Rightarrow>
                          (ctx3 \<lparr> cx_lastError := Some (''Re-scroll coordinate detection failed: '' @
                                                        error_message coordError) \<rparr>, True))
                   else (ctx3, False))))"

text \<open>The backup click method, with the outer \<open>catch\<close> applied to what it throws.\<close>

definition backup_click :: "click_env \<Rightarrow> OperationContext \<Rightarrow> (click_error + unit) \<times> OperationContext" where
  "backup_click env ctx =
     (let ctx1 = ctx \<lparr> cx_backupClickAttempted := True \<rparr> in
      case ce_backup_lookup env of
        Inl elementError \<Rightarrow>
          (let ctx2 = ctx1 \<lparr> cx_lastError := Some (''Element lookup failed in backup method: '' @
                                                  error_message elementError) \<rparr>
           in (Inl (ClickOperationFailed ctx2), ctx2))
      | Inr uniqueId \<Rightarrow>
          (case ce_backup env of
             InjectThrows err \<Rightarrow>
               if js_includes (error_message err) ''Click operation failed for element''
               then (Inl (Rethrown err), ctx1)
               else (let ctx2 = ctx1 \<lparr> cx_lastError := Some (error_message err) \<rparr>
                     in (Inl (ClickOperationFailed ctx2), ctx2))
           | InjectUndefined \<Rightarrow>
               (let ctx2 = ctx1 \<lparr> cx_lastError :=
                             Some ''Cannot read properties of undefined (reading success)'' \<rparr>
                in (Inl (ClickOperationFailed ctx2), ctx2))
           | Injected clickResult \<Rightarrow>
               if clr_success clickResult then (Inr (), ctx1)
               else (let ctx2 = ctx1 \<lparr> cx_lastError := Some (''Backup click method failed: '' @
                              (case clr_reason clickResult of None \<Rightarrow> ''undefined'' | Some r \<Rightarrow> r)) \<rparr>
                     in (Inl (ClickOperationFailed ctx2), ctx2))))"

definition click :: "click_env \<Rightarrow> (click_error + unit) \<times> OperationContext" where
  "click env =
     (let (ctx, useBackupMethod) = scroll_phase env in
      if cx_coordinates ctx \<noteq> None \<and> \<not> useBackupMethod then
        (let ctx1 = ctx \<lparr> cx_primaryClickAttempted := True \<rparr>;
             ctx2 = ctx1 \<lparr> cx_cursorMoved := ce_moveCursor env \<rparr> in
         case ce_click env of
           InjectThrows clickError \<Rightarrow>
             backup_click env (ctx2 \<lparr> cx_lastError :=
               Some (''Primary click failed: '' @ error_message clickError) \<rparr>)
         | clicked \<Rightarrow>
             (let clickSuccess = (case clicked of Injected p \<Rightarrow> primary_click_script p | _ \<Rightarrow> False) in
              if clickSuccess then (Inr (), ctx2)
              else backup_click env (ctx2 \<lparr> cx_lastError :=
                     Some ''Primary click failed: No element found at the specified coordinates'' \<rparr>)))
      else backup_click env ctx)"

text \<open>The primary click script delivered \<open>true\<close>.\<close>

definition primary_click_succeeds :: "click_env \<Rightarrow> bool" where
  "primary_click_succeeds env =
     (case ce_click env of Injected p \<Rightarrow> primary_click_script p | _ \<Rightarrow> False)"

text \<open>
  The scenario of the element-at-point check: the coordinate loop left coordinates in the
  context, and the visibility script ran and found an unrelated element at the point.
\<close>

definition other_element_at_point :: "click_env \<Rightarrow> bool" where
  "other_element_at_point env =
     (case ce_check env of
        Injected p \<Rightarrow> cp_target_found p \<and> cp_hit p = OtherElement
      | _ \<Rightarrow> False)"

definition coordinates_after_retries :: "click_env \<Rightarrow> (jsnum \<times> jsnum) option" where
  "coordinates_after_retries env =
     cx_coordinates (coordinate_retries env 0 False
       (initial_context \<lparr> cx_scrollAttempted := True,
                          cx_scrollSuccess := so_success (ce_scroll env),
                          cx_scrollPartialSuccess := so_partialSuccess (ce_scroll env) \<rparr>))"
text \<open>
  Two pages for the scenario.  In both, scrolling made progress without reaching
  visibility (\<open>partialSuccess\<close>), the coordinates (100, 50) are stable, and an unrelated
  element covers the target at that point.  In \<open>covered_target_env\<close> the covering element
  is still there when the primary click is dispatched; in \<open>uncovered_late_env\<close> nothing
  is at the point any more, and the backup script then clicks the target natively.
\<close>

definition covered_target_env :: click_env where
  "covered_target_env =
     \<lparr> ce_scroll = \<lparr> so_success = False, so_partialSuccess = True,
                     so_reason = Some ''Made progress but not visible'' \<rparr>,
       ce_coords = (\<lambda>i. Inr (Fin 100, Fin 50)),
       ce_check = Injected \<lparr> cp_target_found = True, cp_hit = OtherElement \<rparr>,
       ce_rescroll_coords = Inr (Fin 100, Fin 50),
       ce_moveCursor = False,
       ce_click = Injected \<lparr> cp_target_found = True, cp_hit = OtherElement \<rparr>,
       ce_backup_lookup = Inr ''k3x9'',
       ce_backup = Injected \<lparr> clr_success = True, clr_reason = None, clr_method = Some ''native'' \<rparr> \<rparr>"

definition uncovered_late_env :: click_env where
  "uncovered_late_env =
     covered_target_env \<lparr> ce_click := Injected \<lparr> cp_target_found = True, cp_hit = NoElementAtPoint \<rparr> \<rparr>"

subsection \<open>Properties of the click executor\<close>

lemma backup_click_flags:
  "cx_backupClickAttempted (snd (backup_click env ctx))"
  "cx_primaryClickAttempted (snd (backup_click env ctx)) = cx_primaryClickAttempted ctx"
  by (auto simp: backup_click_def Let_def split: sum.splits injected.splits)

lemma scroll_phase_other_element:
  assumes "so_partialSuccess (ce_scroll env)"
    and "coordinates_after_retries env = Some xy"
    and "other_element_at_point env"
  shows "snd (scroll_phase env) = False"
    and "cx_coordinates (fst (scroll_phase env)) = Some xy"
    and "\<not> cx_primaryClickAttempted (fst (scroll_phase env))"
    and "\<not> cx_backupClickAttempted (fst (scroll_phase env))"
    and "cx_lastError (fst (scroll_phase env)) =
           Some ''Element not visible at computed coordinates after scroll''"
proof -
  let ?ctx1 = "initial_context \<lparr> cx_scrollAttempted := True,
                 cx_scrollSuccess := so_success (ce_scroll env),
                 cx_scrollPartialSuccess := so_partialSuccess (ce_scroll env) \<rparr>"
  let ?ctx3 = "coordinate_retries env 0 False ?ctx1"
  from assms(3) obtain p where p: "ce_check env = Injected p" "\<not> visibility_script p"
    by (auto simp: other_element_at_point_def visibility_script_def split: injected.splits)
  from assms(2) have c: "cx_coordinates ?ctx3 = Some xy"
    by (simp add: coordinates_after_retries_def)
  have phase: "scroll_phase env =
      (?ctx3 \<lparr> cx_lastError := Some ''Element not visible at computed coordinates after scroll'' \<rparr>,
       False)"
    using assms(1) p c by (simp add: scroll_phase_def Let_def)
  have flags: "\<not> cx_primaryClickAttempted ctx \<and> \<not> cx_backupClickAttempted ctx \<Longrightarrow>
      \<not> cx_primaryClickAttempted (coordinate_retries env n s ctx) \<and>
      \<not> cx_backupClickAttempted (coordinate_retries env n s ctx)" for n s ctx
  proof (induction env n s ctx rule: coordinate_retries.induct)
    case (1 env retryCount stableCoordinates ctx)
    show ?case
      by (subst (1 2) coordinate_retries.simps)
         (use 1 in \<open>auto simp: Let_def split: sum.splits option.splits\<close>)
  qed
  have "\<not> cx_primaryClickAttempted ?ctx3 \<and> \<not> cx_backupClickAttempted ?ctx3"
    by (rule flags) (simp add: initial_context_def)
  with phase c show "snd (scroll_phase env) = False"
    and "cx_coordinates (fst (scroll_phase env)) = Some xy"
    and "\<not> cx_primaryClickAttempted (fst (scroll_phase env))"
    and "\<not> cx_backupClickAttempted (fst (scroll_phase env))"
    and "cx_lastError (fst (scroll_phase env)) =
           Some ''Element not visible at computed coordinates after scroll''"
    by simp_all
qed

text \<open>
  Claim C1, as stated: when the check finds another element at the computed point and the
  scroll reported partial success, execution proceeds to the backup-click method.  This
  fails on the code.  In \<open>covered_target_env\<close> the check finds the covering element, the
  code goes on to the primary click, the primary click script finds an element at the
  point (the covering one), dispatches the mouse events on it and reports success;
  \<open>click\<close> resolves and the backup-click method is never attempted.
\<close>

theorem C1_primary_click_counterexample:
  "so_partialSuccess (ce_scroll covered_target_env)
   \<and> coordinates_after_retries covered_target_env = Some (Fin 100, Fin 50)
   \<and> other_element_at_point covered_target_env
   \<and> fst (click covered_target_env) = Inr ()
   \<and> cx_primaryClickAttempted (snd (click covered_target_env))
   \<and> \<not> cx_backupClickAttempted (snd (click covered_target_env))"
  by (simp add: covered_target_env_def coordinates_after_retries_def coordinate_retries.simps
      initial_context_def MAX_COORDINATE_RETRIES_def is_stable_def
      COORDINATE_STABILITY_THRESHOLD_def js_minus_def other_element_at_point_def click_def
      scroll_phase_def visibility_script_def primary_click_script_def Let_def)

text \<open>
  Claim C1, amended: when the scroll reported partial success, the coordinate loop left
  coordinates, and the check finds another element at the computed point, \<open>click\<close> does
  not fail at the check: it goes on to the primary click at the computed coordinates.
  The backup-click method is attempted exactly when that primary click does not report
  success (the injection throws, or no element is at the point any more); when the
  primary click reports success, \<open>click\<close> resolves without the backup method.
\<close>

theorem C1_other_element_then_primary:
  assumes "so_partialSuccess (ce_scroll env)"
    and "coordinates_after_retries env \<noteq> None"
    and "other_element_at_point env"
  shows "cx_primaryClickAttempted (snd (click env))
    \<and> cx_backupClickAttempted (snd (click env)) = (\<not> primary_click_succeeds env)
    \<and> (if primary_click_succeeds env then fst (click env) = Inr ()
        else \<exists>ctx. cx_primaryClickAttempted ctx \<and> click env = backup_click env ctx)"
proof -
  from assms(2) obtain xy where xy: "coordinates_after_retries env = Some xy" by auto
  note ph = scroll_phase_other_element [OF assms(1) xy assms(3)]
  obtain ctx ub where s: "scroll_phase env = (ctx, ub)" by (cases "scroll_phase env")
  with ph have ub: "ub = False" and co: "cx_coordinates ctx = Some xy"
    and np: "\<not> cx_primaryClickAttempted ctx" and nb: "\<not> cx_backupClickAttempted ctx"
    by simp_all
  show ?thesis
  proof (cases "primary_click_succeeds env")
    case True
    then obtain p where "ce_click env = Injected p" "primary_click_script p"
      by (auto simp: primary_click_succeeds_def split: injected.splits)
    with True s ub co nb show ?thesis
      by (simp add: click_def Let_def)
  next
    case False
    then show ?thesis using s ub co
      by (cases "ce_click env")
         (auto simp: click_def Let_def primary_click_succeeds_def backup_click_flags
            intro!: exI [of _ "_ \<lparr> cx_lastError := _ \<rparr>"])
  qed
qed

text \<open>
  Witness for C1: in \<open>uncovered_late_env\<close> the hypotheses hold, the primary click finds
  no element at the point, and the backup-click method is attempted and succeeds.
\<close>

theorem C1_other_element_then_primary_witness:
  "so_partialSuccess (ce_scroll uncovered_late_env)
   \<and> coordinates_after_retries uncovered_late_env \<noteq> None
   \<and> other_element_at_point uncovered_late_env
   \<and> \<not> primary_click_succeeds uncovered_late_env
   \<and> cx_primaryClickAttempted (snd (click uncovered_late_env))
   \<and> cx_backupClickAttempted (snd (click uncovered_late_env))"
proof -
  have h1: "so_partialSuccess (ce_scroll uncovered_late_env)"
    by (simp add: uncovered_late_env_def covered_target_env_def)
  have h2: "coordinates_after_retries uncovered_late_env \<noteq> None"
    by (simp add: uncovered_late_env_def covered_target_env_def coordinates_after_retries_def
        coordinate_retries.simps initial_context_def MAX_COORDINATE_RETRIES_def is_stable_def
        COORDINATE_STABILITY_THRESHOLD_def js_minus_def)
  have h3: "other_element_at_point uncovered_late_env"
    by (simp add: uncovered_late_env_def covered_target_env_def other_element_at_point_def)
  have h4: "\<not> primary_click_succeeds uncovered_late_env"
    by (simp add: uncovered_late_env_def covered_target_env_def primary_click_succeeds_def
        primary_click_script_def)
  from C1_other_element_then_primary [OF h1 h2 h3] h1 h2 h3 h4 show ?thesis by simp
qed

section \<open>Stability monitor (Operation/core/stability.ts)\<close>

definition STABILITY_TIMEOUT :: int where "STABILITY_TIMEOUT = 2000"
definition POLL_INTERVAL :: int where "POLL_INTERVAL = 25"
definition CONSISTENT_CHECKS_REQUIRED :: nat where "CONSISTENT_CHECKS_REQUIRED = 2"
definition MIN_STABLE_TIME :: int where "MIN_STABLE_TIME = 100"
definition MAX_MUTATION_COUNT :: nat where "MAX_MUTATION_COUNT = 3"
definition SKIP_STABILITY_THRESHOLD :: int where "SKIP_STABILITY_THRESHOLD = 500"

text \<open>
  What the injected stability script reads from the page: whether the document is fully
  loaded, the instrumentation counters, the numbers of elements matched by each query,
  and whether the React and Vue globals are defined.
\<close>

record page_snapshot =
  ps_complete :: bool
  ps_pendingFetch :: nat
  ps_pendingXHR :: nat
  ps_loadingImages :: nat
  ps_loadingStylesheets :: nat
  ps_loadingIndicators :: nat
  ps_mutationCount :: nat
  ps_reactDefined :: bool
  ps_reactLoading :: nat
  ps_vueDefined :: bool
  ps_vueLoading :: nat
  ps_emptyContainers :: nat
  ps_pendingTimers :: nat

record stability_result =
  isStable :: bool
  reason :: "string option"

definition unstable :: "string \<Rightarrow> stability_result" where
  "unstable why = \<lparr> isStable = False, reason = Some why \<rparr>"

definition stability_script :: "page_snapshot \<Rightarrow> nat \<Rightarrow> stability_result" where
  "stability_script p maxMutations =
     (if \<not> ps_complete p then unstable ''document-not-ready''
      else if ps_pendingFetch p > 0 then unstable ''pending-fetch-requests''
      else if ps_pendingXHR p > 0 then unstable ''pending-xhr-requests''
      else if ps_loadingImages p > 0 then unstable ''images-loading''
      else if ps_loadingStylesheets p > 0 then unstable ''stylesheets-loading''
      else if ps_loadingIndicators p > 0 then unstable ''loading-indicators''
      else if ps_mutationCount p > maxMutations then unstable ''high-mutation-count''
      else if ps_reactDefined p \<and> ps_reactLoading p > 0 then unstable ''react-loading-state''
      else if ps_vueDefined p \<and> ps_vueLoading p > 0 then unstable ''vue-loading-state''
      else if ps_emptyContainers p > 0 then unstable ''empty-content-containers''
      else if ps_pendingTimers p > 2 then unstable ''many-pending-timers''
      else \<lparr> isStable = True, reason = None \<rparr>)"

text \<open>
  One poll: the injection throws, delivers no result (the code then throws
  \<open>Failed to get DOM snapshot\<close> itself), or runs the script on the page.  The
  environment gives, for the poll number, that outcome and the value of \<open>Date.now()\<close>
  read after it.
\<close>

datatype poll = PollThrows js_error | PollNoResult | PollPage page_snapshot

record stability_state =
  lastStableTime :: int
  consistentStableChecks :: nat
  lastWasStable :: bool

datatype stability_outcome = StabilityAchieved | TimeoutExceeded "string option"

record wait_result =
  wr_outcome :: stability_outcome
  wr_polls :: nat

text \<open>
  The body of \<open>checkStability\<close> for a poll that delivered a result: it resolves the
  promise (\<open>Inl\<close>) or leaves the state for the next poll (\<open>Inr\<close>).
\<close>

definition poll_step ::
  "stability_result \<Rightarrow> int \<Rightarrow> int \<Rightarrow> stability_state \<Rightarrow> stability_outcome + stability_state" where
  "poll_step result currentTime started st =
     (let st1 = (if isStable result then
                   (if lastWasStable st
                    then st \<lparr> consistentStableChecks := consistentStableChecks st + 1 \<rparr>
                    else st \<lparr> consistentStableChecks := 1, lastStableTime := currentTime \<rparr>)
                 else st \<lparr> consistentStableChecks := 0 \<rparr>)
      in if isStable result \<and> consistentStableChecks st1 \<ge> CONSISTENT_CHECKS_REQUIRED
            \<and> currentTime - lastStableTime st1 \<ge> MIN_STABLE_TIME
         then Inl StabilityAchieved
         else if currentTime - started > STABILITY_TIMEOUT
         then Inl (TimeoutExceeded (reason result))
         else Inr (st1 \<lparr> lastWasStable := isStable result \<rparr>))"

text \<open>
  The polling loop.  Each poll re-arms itself with a timer, and nothing bounds the number
  of polls, so the loop takes fuel: \<open>None\<close> means that the promise is still pending
  after that many polls.  A poll that throws lands in the \<open>catch\<close> block, which only
  logs and re-arms the timer.
\<close>

fun checkStability ::
  "nat \<Rightarrow> (nat \<Rightarrow> poll \<times> int) \<Rightarrow> int \<Rightarrow> nat \<Rightarrow> stability_state \<Rightarrow> wait_result option" where
  "checkStability 0 env started i st = None"
| "checkStability (Suc fuel) env started i st =
     (case fst (env i) of
        PollThrows err \<Rightarrow> checkStability fuel env started (i + 1) st
      | PollNoResult \<Rightarrow> checkStability fuel env started (i + 1) st
      | PollPage p \<Rightarrow>
          (case poll_step (stability_script p MAX_MUTATION_COUNT) (snd (env i)) started st of
             Inl outcome \<Rightarrow> Some \<lparr> wr_outcome = outcome, wr_polls = i + 1 \<rparr>
           | Inr st1 \<Rightarrow> checkStability fuel env started (i + 1) st1))"

definition checkPageLoadingAndStability ::
  "nat \<Rightarrow> (nat \<Rightarrow> poll \<times> int) \<Rightarrow> int \<Rightarrow> wait_result option" where
  "checkPageLoadingAndStability fuel env started =
     checkStability fuel env started 0
       \<lparr> lastStableTime = 0, consistentStableChecks = 0, lastWasStable = False \<rparr>"

text \<open>
  \<open>ensurePageStability\<close> with the module-level cache passed explicitly.  The injection
  that installs the page instrumentation is wrapped in its own \<open>try\<close> and has no effect
  on the control flow.  \<open>Skipped\<close> is the early return on a fresh cached result.
\<close>

record stability_cache =
  lastStabilityCheck :: int
  lastStabilityResult :: bool

datatype ensure_result = Skipped | Waited wait_result

definition ensurePageStability ::
  "nat \<Rightarrow> (nat \<Rightarrow> poll \<times> int) \<Rightarrow> int \<Rightarrow> int \<Rightarrow> stability_cache \<Rightarrow>
   (ensure_result \<times> stability_cache) option" where
  "ensurePageStability fuel env now started cache =
     (if lastStabilityResult cache \<and> now - lastStabilityCheck cache < SKIP_STABILITY_THRESHOLD
      then Some (Skipped, cache)
      else case checkPageLoadingAndStability fuel env started of
             None \<Rightarrow> None
           | Some r \<Rightarrow> Some (Waited r, \<lparr> lastStabilityCheck = now, lastStabilityResult = True \<rparr>))"

subsection \<open>Properties of the stability monitor\<close>

text \<open>
  A poll that delivers a result after the timeout always resolves the promise, and once a
  poll is known to do so, enough fuel reaches it: the wait resolves with at most that
  many polls.
\<close>

lemma poll_step_late:
  "currentTime - started > STABILITY_TIMEOUT \<Longrightarrow> \<exists>outcome. poll_step result currentTime started st = Inl outcome"
  by (simp add: poll_step_def Let_def)

lemma checkStability_resolves:
  assumes "fst (env (i + k)) = PollPage p"
    and "snd (env (i + k)) - started > STABILITY_TIMEOUT"
  shows "\<exists>r. checkStability (Suc k) env started i st = Some r \<and> wr_polls r \<le> i + k + 1"
  using assms
proof (induction k arbitrary: i st)
  case 0
  from poll_step_late [OF "0.prems"(2) [simplified]]
  obtain outcome where
    "poll_step (stability_script p MAX_MUTATION_COUNT) (snd (env i)) started st = Inl outcome"
    by blast
  with "0.prems"(1) show ?case by simp
next
  case (Suc k)
  have later: "fst (env (Suc i + k)) = PollPage p"
      "snd (env (Suc i + k)) - started > STABILITY_TIMEOUT"
    using Suc.prems by simp_all
  have next_poll: "\<exists>r. checkStability (Suc k) env started (i + 1) st' = Some r
      \<and> wr_polls r \<le> i + Suc k + 1" for st'
    using Suc.IH [OF later, of st'] by simp
  show ?case
  proof (cases "fst (env i)")
    case (PollThrows err)
    with next_poll [of st] show ?thesis by simp
  next
    case PollNoResult
    with next_poll [of st] show ?thesis by simp
  next
    case (PollPage q)
    show ?thesis
    proof (cases "poll_step (stability_script q MAX_MUTATION_COUNT) (snd (env i)) started st")
      case (Inl outcome)
      with PollPage show ?thesis by simp
    next
      case (Inr st1)
      with PollPage next_poll [of st1] show ?thesis by simp
    qed
  qed
qed

lemma checkStability_all_throw:
  "(\<And>j. \<exists>err. fst (env j) = PollThrows err) \<Longrightarrow> checkStability fuel env started i st = None"
proof (induction fuel arbitrary: i st)
  case 0
  show ?case by simp
next
  case (Suc fuel)
  from Suc.prems [of i] obtain err where "fst (env i) = PollThrows err" by blast
  with Suc.IH [OF Suc.prems] show ?case by simp
qed

text \<open>
  Claim C8 at the input where the code departs from it: a tab in which every injection
  of the stability script throws (a \<open>chrome://\<close> page, say), polled every 25 ms from
  time 1000.  The \<open>catch\<close> block re-arms the timer without looking at the clock, so the
  promise of \<open>checkPageLoadingAndStability\<close> is still pending after any number of
  polls, long after the 2-second timeout, and with it \<open>ensurePageStability\<close>, called at
  time 990 with the initial cache.
\<close>

theorem C8_failing_polls_never_resolve:
  "checkPageLoadingAndStability fuel
     (\<lambda>j. (PollThrows (Error ''Cannot access a chrome:// URL''), 1000 + 25 * int j)) 1000 = None
   \<and> ensurePageStability fuel
     (\<lambda>j. (PollThrows (Error ''Cannot access a chrome:// URL''), 1000 + 25 * int j)) 990 1000
     \<lparr> lastStabilityCheck = 0, lastStabilityResult = True \<rparr> = None"
proof -
  have "checkPageLoadingAndStability fuel
     (\<lambda>j. (PollThrows (Error ''Cannot access a chrome:// URL''), 1000 + 25 * int j)) 1000 = None"
    unfolding checkPageLoadingAndStability_def
    by (rule checkStability_all_throw) simp
  then show ?thesis
    by (simp add: ensurePageStability_def SKIP_STABILITY_THRESHOLD_def)
qed

text \<open>
  When the polls deliver results the wait does resolve: a page that never becomes stable,
  polled every 25 ms from time 1000, times out at the first poll after 3000, the 82nd,
  with the reason of the last poll.
\<close>

lemma checkPageLoadingAndStability_times_out:
  "\<exists>r. checkPageLoadingAndStability 82
     (\<lambda>j. (PollPage \<lparr> ps_complete = True, ps_pendingFetch = 1, ps_pendingXHR = 0,
                       ps_loadingImages = 0, ps_loadingStylesheets = 0, ps_loadingIndicators = 0,
                       ps_mutationCount = 0, ps_reactDefined = False, ps_reactLoading = 0,
                       ps_vueDefined = False, ps_vueLoading = 0, ps_emptyContainers = 0,
                       ps_pendingTimers = 0 \<rparr>, 1000 + 25 * int j)) 1000 = Some r
     \<and> wr_polls r \<le> 82"
proof -
  let ?env = "\<lambda>j. (PollPage \<lparr> ps_complete = True, ps_pendingFetch = 1, ps_pendingXHR = 0,
                       ps_loadingImages = 0, ps_loadingStylesheets = 0, ps_loadingIndicators = 0,
                       ps_mutationCount = 0, ps_reactDefined = False, ps_reactLoading = 0,
                       ps_vueDefined = False, ps_vueLoading = 0, ps_emptyContainers = 0,
                       ps_pendingTimers = 0 \<rparr>, 1000 + 25 * int j)"
  have "\<exists>r. checkStability (Suc 81) ?env 1000 0
          \<lparr> lastStableTime = 0, consistentStableChecks = 0, lastWasStable = False \<rparr> = Some r
        \<and> wr_polls r \<le> 0 + 81 + 1"
    by (rule checkStability_resolves) (simp_all add: STABILITY_TIMEOUT_def)
  then show ?thesis
    by (simp add: checkPageLoadingAndStability_def eval_nat_numeral)
qed

section \<open>SetValue executor (Operation/actions/setValue.ts)\<close>

subsection \<open>Completion timing\<close>

text \<open>
  \<open>setValue\<close> first turns every two-character sequence backslash, \<open>n\<close> of the payload
  value into a line feed (\<open>rawValue.replace(/\\n/g, '\n')\<close>); the result is the value
  handed to \<open>executeSetValueWithCompletion\<close> and typed by the script.
\<close>

fun process_value :: "string \<Rightarrow> string" where
  "process_value (a # b # cs) =
     (if a = CHR 0x5C \<and> b = CHR ''n'' then CHR 0x0A # process_value cs
      else a # process_value (b # cs))"
| "process_value cs = cs"

record SetValueResult =
  sv_success :: bool
  sv_type :: "string option"
  sv_reason :: "string option"

text \<open>
  What \<open>executeSetValueWithCompletion\<close> meets: the element lookup and the injection of
  the typing script.  \<open>hideCursor\<close> swallows its own errors.  On success the function
  arms one timer when the script's result arrives and resolves when it fires; the model
  returns the delay of that timer and the element type recorded in the context.  Time
  is the delay handed to \<open>setTimeout\<close>: the latency of the injection and the lateness of
  timers are not represented.
\<close>

record setvalue_env =
  sve_lookup :: "js_error + string"
  sve_script :: "SetValueResult injected"

record completion =
  totalDuration :: nat
  elementType :: string

definition executeSetValueWithCompletion :: "setvalue_env \<Rightarrow> string \<Rightarrow> js_error + completion" where
  "executeSetValueWithCompletion env v =
     (case sve_lookup env of
        Inl err \<Rightarrow> Inl err
      | Inr uniqueId \<Rightarrow>
          (let typingDuration = length v * 50;
               total = typingDuration + 100
           in case sve_script env of
                InjectThrows err \<Rightarrow> Inl err
              | InjectUndefined \<Rightarrow> Inl (Error ''Primary setValue failed: Unknown error'')
              | Injected result \<Rightarrow>
                  if \<not> sv_success result
                  then Inl (Error (''Primary setValue failed: '' @
                         (if truthy (sv_reason result) then the (sv_reason result) else ''Unknown error'')))
                  else Inr \<lparr> totalDuration = total,
                             elementType = (if truthy (sv_type result) then the (sv_type result)
                                            else ''unknown'') \<rparr>))"

text \<open>
  The timers that the typing script arms when it runs, as delays from that moment: one
  per character, at \<open>index * 50\<close>, and, armed by the timer of the last character, the
  final \<open>change\<close> event 50 ms later.
\<close>

definition typing_timers :: "string \<Rightarrow> nat list" where
  "typing_timers v = map (\<lambda>index. index * 50) [0..<length v]"

definition change_timer :: "string \<Rightarrow> nat option" where
  "change_timer v = (if v = [] then None else Some ((length v - 1) * 50 + 50))"

subsection \<open>Properties of the completion timing\<close>

lemma process_value_length: "length (process_value raw) \<le> length raw"
  by (induction raw rule: process_value.induct) auto

lemma process_value_no_backslash: "CHR 0x5C \<notin> set raw \<Longrightarrow> process_value raw = raw"
  by (induction raw rule: process_value.induct) auto

lemma typing_before_completion:
  "(\<forall>t \<in> set (typing_timers v). t < length v * 50)
   \<and> (\<forall>t. change_timer v = Some t \<longrightarrow> t = length v * 50)"
  by (cases v) (auto simp: typing_timers_def change_timer_def)

text \<open>
  Claim C5: under non-failing conditions (the element is found and the typing script
  reports success), for a typed value of length \<open>L\<close>, in particular one without line
  feeds, the completion delay is \<open>L * 50 + 100\<close> milliseconds, which is at least \<open>L * 50\<close>
  and less than \<open>L * 50 + 500\<close>.
\<close>

theorem C5_completion_delay:
  assumes "sve_lookup env = Inr uniqueId"
    and "sve_script env = Injected result"
    and "sv_success result"
  shows "\<exists>c. executeSetValueWithCompletion env v = Inr c
           \<and> totalDuration c = length v * 50 + 100
           \<and> length v * 50 \<le> totalDuration c
           \<and> totalDuration c < length v * 50 + 500"
  using assms by (simp add: executeSetValueWithCompletion_def Let_def)

text \<open>
  Witness for C5: the five characters of \<open>hello\<close> typed into an input complete after
  350 ms.
\<close>

theorem C5_completion_delay_witness:
  "executeSetValueWithCompletion
     \<lparr> sve_lookup = Inr ''k3x9'',
       sve_script = Injected \<lparr> sv_success = True, sv_type = Some ''input'', sv_reason = None \<rparr> \<rparr>
     ''hello''
   = Inr \<lparr> totalDuration = 350, elementType = ''input'' \<rparr>"
proof -
  let ?env = "\<lparr> sve_lookup = Inr ''k3x9'',
       sve_script = Injected \<lparr> sv_success = True, sv_type = Some ''input'', sv_reason = None \<rparr> \<rparr>"
  have h1: "sve_lookup ?env = Inr ''k3x9''" by simp
  have h2: "sve_script ?env = Injected \<lparr> sv_success = True, sv_type = Some ''input'', sv_reason = None \<rparr>"
    by simp
  have h3: "sv_success \<lparr> sv_success = True, sv_type = Some ''input'', sv_reason = None \<rparr>" by simp
  from C5_completion_delay [OF h1 h2 h3, of "''hello''"]
  obtain c where c: "executeSetValueWithCompletion ?env ''hello'' = Inr c"
    "totalDuration c = length ''hello'' * 50 + 100" by blast
  have "elementType c = ''input''"
    using c(1) by (auto simp: executeSetValueWithCompletion_def Let_def)
  with c show ?thesis by (cases c) simp
qed

subsection \<open>The Enter key in the typing script\<close>

text \<open>
  The element as the timer of a \<open>\n\<close> character finds it: which interfaces it
  implements, its value and its selection.  The value and the selection are live
  properties of the element; page handlers run on every dispatched event, so the
  selection need not be where the previous character left it.
\<close>

record typed_element =
  el_isTextarea :: bool
  el_isContentEditable :: bool
  el_isInput :: bool
  el_inDraftEditor :: bool
  el_value :: string
  el_selectionStart :: nat
  el_selectionEnd :: nat

text \<open>
  What the page answers: whether a handler prevented the \<open>keydown\<close>, whether
  \<open>execCommand('insertLineBreak')\<close> and \<open>execCommand('insertHTML')\<close> report success,
  whether the selection has a range, and the enclosing form if there is one: whether its
  \<open>submit\<close> event goes uncancelled, whether calling \<open>form.submit()\<close> throws, and
  whether it has a submit button.
\<close>

record form_env =
  submit_uncancelled :: bool
  submit_throws :: bool
  has_submit_button :: bool

record enter_env =
  keydown_prevented :: bool
  insertLineBreak_ok :: bool
  insertHTML_ok :: bool
  selection_has_range :: bool
  enclosing_form :: "form_env option"

datatype page_effect =
    KeyEvent string
  | InputEvent
  | ChangeEventAfter nat
  | ExecCommand string
  | RangeInsertBr
  | InnerHTMLAppendBr
  | SubmitEvent
  | FormSubmit
  | SubmitButtonClick

definition insert_at :: "nat \<Rightarrow> string \<Rightarrow> string" where
  "insert_at pos v = take pos v @ [CHR 0x0A] @ drop pos v"

text \<open>The attempt to submit the enclosing form (inside \<open>try\<close>/\<open>catch\<close>).\<close>

definition try_submit :: "form_env \<Rightarrow> page_effect list" where
  "try_submit form =
     (if submit_uncancelled form then
        (if submit_throws form
         then [SubmitEvent, FormSubmit] @ (if has_submit_button form then [SubmitButtonClick] else [])
         else [SubmitEvent, FormSubmit])
      else [SubmitEvent])"

text \<open>
  The branch \<open>char === '\n'\<close> of the typing loop of \<open>enhancedSetValueScript\<close>: the
  element afterwards and the effects on the page, in order.  The loop runs only for an
  element outside a Draft.js editor, which the script handles before.
\<close>

definition type_enter :: "enter_env \<Rightarrow> typed_element \<Rightarrow> typed_element \<times> page_effect list" where
  "type_enter env element =
     (let prevented = keydown_prevented env;
          keys = [KeyEvent ''keydown''] @ (if \<not> prevented then [KeyEvent ''keypress''] else [])
                 @ [KeyEvent ''keyup'']
      in if el_isTextarea element then
           (let pos = (if el_selectionStart element \<noteq> 0 then el_selectionStart element
                       else length (el_value element))
            in (element \<lparr> el_value := insert_at pos (el_value element),
                         el_selectionStart := pos + 1, el_selectionEnd := pos + 1 \<rparr>,
                keys @ [InputEvent]))
         else if el_isContentEditable element then
           (element,
            keys @ (if insertLineBreak_ok env then [ExecCommand ''insertLineBreak'']
                    else [ExecCommand ''insertLineBreak'', ExecCommand ''insertHTML''])
                 @ [InputEvent])
         else if el_isInput element \<and> \<not> prevented then
           (element,
            keys @ (case enclosing_form env of None \<Rightarrow> [] | Some form \<Rightarrow> try_submit form)
                 @ [InputEvent])
         else (element, keys @ [InputEvent]))"

text \<open>
  The helper \<open>insertLineBreak\<close>: \<open>execCommand\<close>, then a \<open>br\<close> node inserted through the
  selection, then a \<open>br\<close> appended to \<open>innerHTML\<close>; the first method that reports success
  ends the search.
\<close>

definition insertLineBreak :: "enter_env \<Rightarrow> page_effect list" where
  "insertLineBreak env =
     (if insertLineBreak_ok env then [ExecCommand ''insertLineBreak'']
      else if insertHTML_ok env then [ExecCommand ''insertLineBreak'', ExecCommand ''insertHTML'']
      else [ExecCommand ''insertLineBreak'', ExecCommand ''insertHTML''] @
           (if selection_has_range env then [RangeInsertBr] else [InnerHTMLAppendBr]))"

text \<open>
  The helper \<open>handleEnterKey\<close> of the same file: the textarea branch replaces the
  selection, reading both ends with the same fallback; the input branch returns after
  a successful \<open>form.submit()\<close>; \<open>dispatchInputEvents\<close> sends the \<open>input\<close> event and
  arms a 50 ms timer for the \<open>change\<close> event.
\<close>

definition dispatchInputEvents :: "page_effect list" where
  "dispatchInputEvents = [InputEvent, ChangeEventAfter 50]"

definition handleEnterKey :: "enter_env \<Rightarrow> typed_element \<Rightarrow> typed_element \<times> page_effect list" where
  "handleEnterKey env element =
     (let isContentEditable = (el_isContentEditable element \<and> \<not> el_inDraftEditor element);
          keydownPrevented = keydown_prevented env;
          keys = [KeyEvent ''keydown''] @ (if \<not> keydownPrevented then [KeyEvent ''keypress''] else [])
                 @ [KeyEvent ''keyup'']
      in if el_isTextarea element then
           (let currentValue = el_value element;
                selectionStart = (if el_selectionStart element \<noteq> 0 then el_selectionStart element
                                  else length currentValue);
                selectionEnd = (if el_selectionEnd element \<noteq> 0 then el_selectionEnd element
                                else length currentValue)
            in (element \<lparr> el_value := take selectionStart currentValue @ [CHR 0x0A]
                                         @ drop selectionEnd currentValue,
                         el_selectionStart := selectionStart + 1,
                         el_selectionEnd := selectionStart + 1 \<rparr>,
                keys @ dispatchInputEvents))
         else if isContentEditable then
           (element, keys @ insertLineBreak env @ dispatchInputEvents)
         else if el_isInput element \<and> \<not> keydownPrevented then
           (element, keys @ (case enclosing_form env of None \<Rightarrow> [] | Some form \<Rightarrow> try_submit form))
         else (element, keys))"

definition submission_effects :: "page_effect list \<Rightarrow> page_effect list" where
  "submission_effects effects =
     filter (\<lambda>e. e = SubmitEvent \<or> e = FormSubmit \<or> e = SubmitButtonClick) effects"

subsection \<open>Properties of the Enter key handling\<close>

text \<open>
  A \<open>\n\<close> typed into a textarea never touches the form, and it puts the line feed at
  the caret whenever the caret is not at offset 0 of a non-empty value.
\<close>

lemma type_enter_textarea:
  assumes "el_isTextarea element"
  shows "submission_effects (snd (type_enter env element)) = []"
    and "el_selectionStart element \<noteq> 0 \<or> el_value element = [] \<Longrightarrow>
         el_value (fst (type_enter env element))
           = insert_at (el_selectionStart element) (el_value element)"
  using assms by (auto simp: type_enter_def submission_effects_def Let_def)

text \<open>
  A \<open>\n\<close> typed into a plain input inside a form, when the \<open>keydown\<close> was not
  prevented, dispatches the \<open>submit\<close> event on the form and leaves the value unchanged.
\<close>

lemma type_enter_input_submits:
  assumes "el_isInput element" and "\<not> el_isTextarea element" and "\<not> el_isContentEditable element"
    and "\<not> keydown_prevented env" and "enclosing_form env = Some form"
  shows "SubmitEvent \<in> set (snd (type_enter env element))"
    and "submit_uncancelled form \<Longrightarrow> FormSubmit \<in> set (snd (type_enter env element))"
    and "el_value (fst (type_enter env element)) = el_value element"
  using assms by (auto simp: type_enter_def try_submit_def Let_def)

text \<open>
  Claim C6 at the input where the code departs from it: a textarea holding \<open>ab\<close> with
  the caret at offset 0 when the \<open>\n\<close> is typed.  The code reads the position as
  \<open>selectionStart || value.length\<close>, takes offset 0 for a missing value, and appends
  the line feed at the end: the value becomes \<open>ab\<close> followed by the line feed, where
  insertion at the caret gives the line feed followed by \<open>ab\<close>.  The helper
  \<open>handleEnterKey\<close> does the same.
\<close>

theorem C6_caret_at_zero_appends:
  "el_value (fst (type_enter
       \<lparr> keydown_prevented = False, insertLineBreak_ok = True, insertHTML_ok = True,
         selection_has_range = True, enclosing_form = None \<rparr>
       \<lparr> el_isTextarea = True, el_isContentEditable = False, el_isInput = False,
         el_inDraftEditor = False, el_value = ''ab'', el_selectionStart = 0, el_selectionEnd = 0 \<rparr>))
     = [CHR ''a'', CHR ''b'', CHR 0x0A]
   \<and> el_value (fst (handleEnterKey
       \<lparr> keydown_prevented = False, insertLineBreak_ok = True, insertHTML_ok = True,
         selection_has_range = True, enclosing_form = None \<rparr>
       \<lparr> el_isTextarea = True, el_isContentEditable = False, el_isInput = False,
         el_inDraftEditor = False, el_value = ''ab'', el_selectionStart = 0, el_selectionEnd = 0 \<rparr>))
     = [CHR ''a'', CHR ''b'', CHR 0x0A]
   \<and> insert_at 0 ''ab'' = [CHR 0x0A, CHR ''a'', CHR ''b'']"
  by (simp add: type_enter_def handleEnterKey_def insert_at_def Let_def)

end
